theory Spec2Isabelle
  imports Complex_Main "HOL-Library.Word" "HOL-Library.Multiset" "HOL-Library.AList"
begin

section \<open>Shared vocabulary of the two wrappers\<close>

text \<open>
  Both source files, \<^verbatim>\<open>segmentation/modal_sam2.py\<close> and
  \<^verbatim>\<open>segmentation/runpod_sam2.py\<close>, are Python. An exception that leaves a function is
  the \<open>Inl\<close> branch of a sum; the exceptions that the two handlers can meet are listed here.
\<close>

datatype error =
    BinasciiError
  | FfmpegError
  | CalledProcessError
  | StopIteration
  | RuntimeError string
  | ValueError
  | IndexError
  | ZeroDivisionError
  | ImageError
  | ModelError
  | OSError

type_synonym bytes = "8 word list"

section \<open>Chunk partitioner (modal\_sam2.py, lines 176-182)\<close>

definition MAX_PARALLEL_CHUNKS :: nat where
  "MAX_PARALLEL_CHUNKS = 8"

text \<open>
  \<^verbatim>\<open>math.ceil(a / b)\<close> on non-negative integers. Python divides in floating point first;
  the model takes the exact quotient, which agrees for every frame count below \<open>2^53\<close>.
\<close>

definition py_ceil_div :: "nat \<Rightarrow> nat \<Rightarrow> error + nat" where
  "py_ceil_div a b = (if b = 0 then Inl ZeroDivisionError else Inr ((a + b - 1) div b))"

text \<open>
  \<^verbatim>\<open>for i in range(0, num_frames, frames_per_chunk): chunks.append(all_frame_bytes[i:i + frames_per_chunk])\<close>
  with the loop variable \<open>i\<close> as the first argument. The caller excludes a zero step.
\<close>

function chunk_loop :: "nat \<Rightarrow> nat \<Rightarrow> 'a list \<Rightarrow> 'a list list" where
  "chunk_loop i frames_per_chunk all_frame_bytes =
     (if frames_per_chunk = 0 \<or> length all_frame_bytes \<le> i then []
      else take frames_per_chunk (drop i all_frame_bytes)
             # chunk_loop (i + frames_per_chunk) frames_per_chunk all_frame_bytes)"
  by pat_completeness auto
termination
  by (relation "measure (\<lambda>(i, step, xs). length xs - i)") auto

declare chunk_loop.simps [simp del]

definition split_chunks :: "'a list \<Rightarrow> error + 'a list list" where
  "split_chunks all_frame_bytes =
     (let num_frames = length all_frame_bytes;
          num_chunks = min MAX_PARALLEL_CHUNKS num_frames
      in case py_ceil_div num_frames num_chunks of
           Inl e \<Rightarrow> Inl e
         | Inr frames_per_chunk \<Rightarrow>
             if frames_per_chunk = 0 then Inl ValueError
             else Inr (chunk_loop 0 frames_per_chunk all_frame_bytes))"


section \<open>Effects and exceptions\<close>

text \<open>
  The files that the handlers create under their temporary directory. A numbered file
  stands for the name \<^verbatim>\<open>f"{i:05d}.jpg"\<close> or \<^verbatim>\<open>f"{i:05d}.png"\<close> of the source.
\<close>

datatype path =
    InputMp4
  | FramesDir
  | FrameJpg nat
  | MasksDir
  | MaskPng nat
  | MaskMp4

text \<open>
  Every call that leaves the Python process or touches the file system is recorded, in
  program order, with the arguments the properties below speak about. Calls to
  \<^verbatim>\<open>print\<close> and \<^verbatim>\<open>time.time\<close> are not recorded.
\<close>

datatype event =
    B64Decode string
  | Mkdtemp
  | Mkdir path
  | WriteFile path
  | ReadFile path
  | Probe
  | ExtractFrames
  | OpenImage
  | LoadModel
  | InitState "bytes list"
  | AddPoint nat nat "nat \<times> nat" nat
  | Propagate
  | LocalCall
  | PoolMap nat
  | Encode

text \<open>
  A computation yields the events it performed and either the exception that ended it
  (\<open>Inl\<close>) or its value (\<open>Inr\<close>).
\<close>

type_synonym 'a act = "event list \<times> (error + 'a)"

definition ret :: "'a \<Rightarrow> 'a act" where
  "ret x = ([], Inr x)"

definition raise :: "error \<Rightarrow> 'a act" where
  "raise e = ([], Inl e)"

definition lift :: "error + 'a \<Rightarrow> 'a act" where
  "lift r = ([], r)"

definition effect :: "event \<Rightarrow> error + 'a \<Rightarrow> 'a act" where
  "effect ev r = ([ev], r)"

definition effects :: "event list \<Rightarrow> unit act" where
  "effects evs = (evs, Inr ())"

definition and_then :: "'a act \<Rightarrow> ('a \<Rightarrow> 'b act) \<Rightarrow> 'b act" where
  "and_then m f =
     (case m of
        (t, Inl e) \<Rightarrow> (t, Inl e)
      | (t, Inr x) \<Rightarrow> (case f x of (t', r) \<Rightarrow> (t @ t', r)))"

text \<open>A Python \<^verbatim>\<open>for\<close> loop that builds a list and stops at the first exception.\<close>

fun for_each :: "('a \<Rightarrow> 'b act) \<Rightarrow> 'a list \<Rightarrow> 'b list act" where
  "for_each f [] = ret []"
| "for_each f (x # xs) =
     and_then (f x) (\<lambda>y. and_then (for_each f xs) (\<lambda>ys. ret (y # ys)))"

definition py_nth :: "'a list \<Rightarrow> nat \<Rightarrow> error + 'a" where
  "py_nth xs i = (if i < length xs then Inr (xs ! i) else Inl IndexError)"

section \<open>Data of the pipeline\<close>

text \<open>
  Floating-point numbers (the frame rate, the mask logits) are modelled as reals: no
  rounding, no NaN. A pixel is an RGB triple of \<^verbatim>\<open>uint8\<close>, an image of shape
  \<open>(height, width, 3)\<close> the list of its \<open>height\<close> rows of \<open>width\<close> pixels.
\<close>

type_synonym pixel = "8 word \<times> 8 word \<times> 8 word"
type_synonym image = "pixel list list"

text \<open>
  One object's entry of the tracker's output, \<^verbatim>\<open>out_mask_logits[i]\<close>, is an array of shape
  \<open>(1, rows, cols)\<close>: the predictor yields its masks with shape
  \<open>(objects, 1, video height, video width)\<close>.
\<close>

datatype 'a tensor = Tensor (rows: nat) (cols: nat) (entry: "nat \<Rightarrow> nat \<Rightarrow> 'a")

type_synonym mask = "bool tensor"
type_synonym logits = "real tensor"

text \<open>One item of \<^verbatim>\<open>propagate_in_video\<close>: \<^verbatim>\<open>(out_frame_idx, out_obj_ids, out_mask_logits)\<close>.\<close>

type_synonym yield = "nat \<times> nat list \<times> logits list"

text \<open>\<^verbatim>\<open>video_segments\<close>: frame index to a dictionary from object id to mask.\<close>

type_synonym video_segments = "nat \<rightharpoonup> (nat \<times> mask) list"

datatype pyval = PyStr string | PyInt int | PyFloat real

text \<open>A response dictionary, in insertion order; \<open>map_of\<close> looks a key up.\<close>

type_synonym response = "(string \<times> pyval) list"

record stream =
  codec_type :: string
  r_frame_rate :: string

record dir_entry =
  stem :: string
  suffix :: string
  content :: bytes

record completed_process =
  returncode :: int
  stderr :: string
  output_file :: "error + bytes"

text \<open>
  The collaborators outside the repository, as the handlers call them: the base64 codec,
  \<^verbatim>\<open>ffmpeg\<close> and \<^verbatim>\<open>ffprobe\<close>, PIL, Python's \<^verbatim>\<open>int\<close>, and the SAM2 video predictor with
  its tracking state \<open>'st\<close>. \<open>init_state\<close> takes the frames of the directory it is pointed
  at, in the order of their numbered names. \<open>ffmpeg_extract\<close> gives the listing of the frames
  directory after the extraction, \<open>ffmpeg_encode\<close> the finished process of the encoder together with
  the file it left. \<open>completion_delay\<close> is the time chunk \<open>i\<close> takes on the worker pool,
  \<open>model_cached\<close> whether \<^verbatim>\<open>builtins._sam2_predictor\<close> exists, \<open>elapsed\<close> the rounded
  wall-clock time of the request.
\<close>

record 'st env =
  b64decode :: "string \<Rightarrow> error + bytes"
  b64encode :: "bytes \<Rightarrow> string"
  ffprobe :: "bytes \<Rightarrow> error + stream list"
  py_int :: "string \<Rightarrow> error + int"
  ffmpeg_extract :: "bytes \<Rightarrow> error + dir_entry list"
  image_size :: "bytes \<Rightarrow> error + nat \<times> nat"
  from_pretrained :: "error + unit"
  model_cached :: bool
  init_state :: "bytes list \<Rightarrow> error + 'st"
  add_new_points_or_box :: "'st \<Rightarrow> nat \<Rightarrow> nat \<Rightarrow> nat \<times> nat \<Rightarrow> nat \<Rightarrow> error + 'st"
  propagate_in_video :: "'st \<Rightarrow> error + yield list"
  png_save :: "image \<Rightarrow> bytes"
  ffmpeg_encode :: "real \<Rightarrow> bytes list \<Rightarrow> error + completed_process"
  completion_delay :: "nat \<Rightarrow> nat"
  elapsed :: real


section \<open>Tracking (modal\_sam2.py, lines 70-96; runpod\_sam2.py, lines 96-118)\<close>

text \<open>\<^verbatim>\<open>(out_mask_logits[i] > 0.0)\<close>, elementwise.\<close>

definition threshold :: "logits \<Rightarrow> mask" where
  "threshold l = Tensor (rows l) (cols l) (\<lambda>r c. 0 < entry l r c)"

text \<open>
  \<^verbatim>\<open>{out_obj_id: (out_mask_logits[i] > 0.0).cpu().numpy() for i, out_obj_id in enumerate(out_obj_ids)}\<close>:
  a later entry for the same object id replaces the earlier one, an index beyond the
  logits raises.
\<close>

fun dict_comp :: "nat \<Rightarrow> nat list \<Rightarrow> logits list \<Rightarrow> (nat \<times> mask) list \<Rightarrow> error + (nat \<times> mask) list" where
  "dict_comp i [] out_mask_logits d = Inr d"
| "dict_comp i (out_obj_id # rest) out_mask_logits d =
     (if i < length out_mask_logits
      then dict_comp (Suc i) rest out_mask_logits
             (AList.update out_obj_id (threshold (out_mask_logits ! i)) d)
      else Inl IndexError)"

text \<open>The loop over the items of \<^verbatim>\<open>propagate_in_video\<close>, filling \<^verbatim>\<open>video_segments\<close>.\<close>

fun collect_segments :: "yield list \<Rightarrow> video_segments \<Rightarrow> error + video_segments" where
  "collect_segments [] video_segments = Inr video_segments"
| "collect_segments ((out_frame_idx, out_obj_ids, out_mask_logits) # rest) video_segments =
     (case dict_comp 0 out_obj_ids out_mask_logits [] of
        Inl e \<Rightarrow> Inl e
      | Inr d \<Rightarrow> collect_segments rest (video_segments(out_frame_idx \<mapsto> d)))"

text \<open>
  The same statements in both files: the point prompt at the image centre with label 1,
  a fresh tracking state over the given frames, object 1 seeded at frame 0, propagation.
\<close>

definition track_video :: "'st env \<Rightarrow> bytes list \<Rightarrow> nat \<Rightarrow> nat \<Rightarrow> video_segments act" where
  "track_video env frames width height =
     (let points = (width div 2, height div 2); labels = 1 in
      and_then (effect (InitState frames) (init_state env frames)) (\<lambda>inference_state.
      and_then (effect (AddPoint 0 1 points labels)
                  (add_new_points_or_box env inference_state 0 1 points labels)) (\<lambda>inference_state.
      and_then (effect Propagate (propagate_in_video env inference_state)) (\<lambda>yields.
      lift (collect_segments yields Map.empty)))))"

section \<open>Rendering (modal\_sam2.py, lines 101-105; runpod\_sam2.py, lines 127-132)\<close>

definition black :: pixel where
  "black = (0, 0, 0)"

definition white :: pixel where
  "white = (255, 255, 255)"

text \<open>\<^verbatim>\<open>np.zeros((height, width, 3), dtype=np.uint8)\<close>\<close>

definition zeros :: "nat \<Rightarrow> nat \<Rightarrow> image" where
  "zeros height width = replicate height (replicate width black)"

text \<open>
  \<^verbatim>\<open>mask.squeeze()\<close> drops every axis of length one of the \<open>(1, rows, cols)\<close> array: what
  is left is a boolean index of no axis, of one axis or of two.
\<close>

datatype bool_index =
    Index0 bool
  | Index1 nat "nat \<Rightarrow> bool"
  | Index2 nat nat "nat \<Rightarrow> nat \<Rightarrow> bool"

definition squeeze :: "mask \<Rightarrow> bool_index" where
  "squeeze m =
     (if rows m = 1 \<and> cols m = 1 then Index0 (entry m 0 0)
      else if rows m = 1 then Index1 (cols m) (\<lambda>c. entry m 0 c)
      else if cols m = 1 then Index1 (rows m) (\<lambda>r. entry m r 0)
      else Index2 (rows m) (cols m) (entry m))"

text \<open>
  \<^verbatim>\<open>mask_img[mask_2d] = [255, 255, 255]\<close> on an image of shape \<open>(height, width, 3)\<close>.
  numpy matches a boolean index against the leading axes of the array and raises IndexError
  when a length differs. An index without axis selects the whole image or nothing, an
  index of one axis selects rows, an index of two axes selects pixels.
\<close>

definition paint :: "nat \<Rightarrow> nat \<Rightarrow> image \<Rightarrow> bool_index \<Rightarrow> error + image" where
  "paint height width mask_img mask_2d =
     (case mask_2d of
        Index0 b \<Rightarrow> Inr (if b then map (map (\<lambda>p. white)) mask_img else mask_img)
      | Index1 n b \<Rightarrow>
          if n = height
          then Inr (map2 (\<lambda>r ps. if b r then map (\<lambda>p. white) ps else ps)
                      [0..<height] mask_img)
          else Inl IndexError
      | Index2 n k b \<Rightarrow>
          if n = height \<and> k = width
          then Inr (map2 (\<lambda>r ps. map2 (\<lambda>c p. if b r c then white else p) [0..<width] ps)
                      [0..<height] mask_img)
          else Inl IndexError)"

text \<open>
  \<^verbatim>\<open>for obj_id, mask in video_segments[frame_idx].items():\<close>
  \<^verbatim>\<open>mask_2d = mask.squeeze(); mask_img[mask_2d] = [255, 255, 255]\<close>
\<close>

fun paint_all :: "nat \<Rightarrow> nat \<Rightarrow> image \<Rightarrow> (nat \<times> mask) list \<Rightarrow> error + image" where
  "paint_all height width mask_img [] = Inr mask_img"
| "paint_all height width mask_img ((obj_id, obj_mask) # rest) =
     (case paint height width mask_img (squeeze obj_mask) of
        Inl e \<Rightarrow> Inl e
      | Inr img \<Rightarrow> paint_all height width img rest)"

definition render_frame :: "video_segments \<Rightarrow> nat \<Rightarrow> nat \<Rightarrow> nat \<Rightarrow> error + image" where
  "render_frame video_segments height width frame_idx =
     (let mask_img = zeros height width in
      case video_segments frame_idx of
        None \<Rightarrow> Inr mask_img
      | Some objs \<Rightarrow> paint_all height width mask_img objs)"

section \<open>Segmentation worker (modal\_sam2.py, \<^verbatim>\<open>SAM2Model.segment_chunk\<close>, lines 50-112)\<close>

definition segment_chunk :: "'st env \<Rightarrow> bytes list \<Rightarrow> nat \<Rightarrow> nat \<Rightarrow> bytes list act" where
  "segment_chunk env frame_jpegs width height =
     and_then (effects (Mkdtemp # Mkdir FramesDir
                 # map (\<lambda>i. WriteFile (FrameJpg i)) [0..<length frame_jpegs])) (\<lambda>_.
     and_then (track_video env frame_jpegs width height) (\<lambda>video_segments.
     for_each (\<lambda>frame_idx.
         and_then (lift (render_frame video_segments height width frame_idx)) (\<lambda>mask_img.
         ret (png_save env mask_img)))
       [0..<length frame_jpegs]))"

section \<open>Chunk dispatcher (modal\_sam2.py, lines 186-201)\<close>

fun sequence :: "(error + 'a) list \<Rightarrow> error + 'a list" where
  "sequence [] = Inr []"
| "sequence (Inl e # rs) = Inl e"
| "sequence (Inr x # rs) = (case sequence rs of Inl e \<Rightarrow> Inl e | Inr xs \<Rightarrow> Inr (x # xs))"

text \<open>
  Modelled from the spec: the platform's \<^verbatim>\<open>.map\<close> primitive of the worker pool, which is
  not part of the repository (``a worker-pool dispatch primitive taking a function and a
  list of argument tuples and returning results preserving input order''). Input \<open>i\<close>
  finishes after \<open>delay i\<close>; the workers' effects happen in completion order, the results
  are handed back in input order, and a failed input raises its exception there.
\<close>

definition pool_map :: "(nat \<Rightarrow> nat) \<Rightarrow> ('a \<Rightarrow> 'b act) \<Rightarrow> 'a list \<Rightarrow> 'b list act" where
  "pool_map delay f xs =
     (let completion = sort_key delay [0..<length xs];
          finished = map (\<lambda>i. (i, f (xs ! i))) completion;
          ordered = sort_key fst finished
      in (PoolMap (length xs) # concat (map (\<lambda>(i, r). fst r) finished),
          sequence (map (\<lambda>(i, r). snd r) ordered)))"

definition dispatch :: "'st env \<Rightarrow> bytes list list \<Rightarrow> nat \<Rightarrow> nat \<Rightarrow> bytes list act" where
  "dispatch env chunks width height =
     (if length chunks = 1 then
        and_then (effects [LocalCall]) (\<lambda>_. segment_chunk env (chunks ! 0) width height)
      else
        and_then (pool_map (completion_delay env)
                    (\<lambda>chunk. segment_chunk env chunk width height) chunks) (\<lambda>chunk_results.
        ret (foldl (\<lambda>all_mask_pngs chunk_masks. all_mask_pngs @ chunk_masks) [] chunk_results)))"


section \<open>Request intake shared by both handlers\<close>

text \<open>\<^verbatim>\<open>s.split(sep, 1)\<close> and \<^verbatim>\<open>s.split(sep)\<close> for a one-character separator.\<close>

fun py_split1 :: "char \<Rightarrow> string \<Rightarrow> string list" where
  "py_split1 sep [] = [[]]"
| "py_split1 sep (c # cs) =
     (if c = sep then [[], cs]
      else case py_split1 sep cs of
             [] \<Rightarrow> [[c]]
           | p # ps \<Rightarrow> (c # p) # ps)"

fun py_split :: "char \<Rightarrow> string \<Rightarrow> string list" where
  "py_split sep [] = [[]]"
| "py_split sep (c # cs) =
     (if c = sep then [] # py_split sep cs
      else case py_split sep cs of
             [] \<Rightarrow> [[c]]
           | p # ps \<Rightarrow> (c # p) # ps)"

text \<open>
  \<^verbatim>\<open>if "," in video_b64: video_b64 = video_b64.split(",", 1)[1]\<close>
  (modal\_sam2.py, lines 131-132; runpod\_sam2.py, lines 57-58).
\<close>

definition strip_data_url :: "string \<Rightarrow> error + string" where
  "strip_data_url video_b64 =
     (if CHR '','' \<in> set video_b64 then py_nth (py_split1 CHR '','' video_b64) 1
      else Inr video_b64)"

text \<open>\<^verbatim>\<open>next(s for s in probe["streams"] if s["codec_type"] == "video")\<close>\<close>

definition find_video_stream :: "stream list \<Rightarrow> error + stream" where
  "find_video_stream streams =
     (case filter (\<lambda>s. codec_type s = ''video'') streams of
        [] \<Rightarrow> Inl StopIteration
      | s # _ \<Rightarrow> Inr s)"

text \<open>
  \<^verbatim>\<open>fps_parts = video_stream["r_frame_rate"].split("/")\<close>,
  \<^verbatim>\<open>int(fps_parts[0]) / int(fps_parts[1])\<close>, evaluated left to right.
\<close>

definition frame_rate :: "'st env \<Rightarrow> stream \<Rightarrow> real act" where
  "frame_rate env video_stream =
     (let fps_parts = py_split CHR ''/'' (r_frame_rate video_stream) in
      and_then (lift (py_nth fps_parts 0)) (\<lambda>p0.
      and_then (lift (py_int env p0)) (\<lambda>a.
      and_then (lift (py_nth fps_parts 1)) (\<lambda>p1.
      and_then (lift (py_int env p1)) (\<lambda>b.
      if b = 0 then raise ZeroDivisionError
      else ret (real_of_int a / real_of_int b))))))"

text \<open>
  \<^verbatim>\<open>sorted([p for p in frames_dir.iterdir() if p.suffix in [".jpg", ".jpeg"]], key=lambda p: int(p.stem))\<close>:
  the keys are computed first, then the entries are sorted stably by key.
\<close>

definition sorted_frames :: "'st env \<Rightarrow> dir_entry list \<Rightarrow> dir_entry list act" where
  "sorted_frames env listing =
     (let jpgs = filter (\<lambda>p. suffix p = ''.jpg'' \<or> suffix p = ''.jpeg'') listing in
      and_then (for_each (\<lambda>p. and_then (lift (py_int env (stem p))) (\<lambda>k. ret (k, p))) jpgs)
        (\<lambda>keyed. ret (map snd (sort_key fst keyed))))"

text \<open>\<^verbatim>\<open>result.stderr[-500:]\<close>\<close>

definition last500 :: "string \<Rightarrow> string" where
  "last500 s = drop (length s - 500) s"

section \<open>The Modal endpoint (modal\_sam2.py, \<^verbatim>\<open>SAM2Model.segment\<close>, lines 115-238)\<close>

text \<open>Lines 176-238: partition, dispatch, mask files, encoding, response.\<close>

definition segment_frames :: "'st env \<Rightarrow> bytes list \<Rightarrow> nat \<Rightarrow> nat \<Rightarrow> real \<Rightarrow> response act" where
  "segment_frames env all_frame_bytes width height original_fps =
     (let num_frames = length all_frame_bytes in
      and_then (lift (split_chunks all_frame_bytes)) (\<lambda>chunks.
      and_then (dispatch env chunks width height) (\<lambda>all_mask_pngs.
      and_then (effects (Mkdir MasksDir
                  # map (\<lambda>i. WriteFile (MaskPng i)) [0..<length all_mask_pngs])) (\<lambda>_.
      and_then (effect Encode (ffmpeg_encode env original_fps all_mask_pngs)) (\<lambda>result.
      if returncode result \<noteq> 0
      then raise (RuntimeError (''ffmpeg failed: '' @ last500 (stderr result)))
      else
        and_then (effect (ReadFile MaskMp4) (output_file result)) (\<lambda>result_bytes.
        ret [(''mask_video_base64'', PyStr (b64encode env result_bytes)),
             (''num_frames'', PyInt (int num_frames)),
             (''fps'', PyFloat original_fps),
             (''original_fps'', PyFloat original_fps),
             (''chunks'', PyInt (int (length chunks))),
             (''processing_time'', PyFloat (elapsed env))]))))))"

text \<open>Lines 135-174: the temporary input file, the probe and the frame extraction.\<close>

definition segment_bytes :: "'st env \<Rightarrow> bytes \<Rightarrow> response act" where
  "segment_bytes env video_bytes =
     and_then (effects [Mkdtemp, WriteFile InputMp4]) (\<lambda>_.
     and_then (effect Probe (ffprobe env video_bytes)) (\<lambda>streams.
     and_then (lift (find_video_stream streams)) (\<lambda>video_stream.
     and_then (frame_rate env video_stream) (\<lambda>original_fps.
     and_then (effects [Mkdir FramesDir]) (\<lambda>_.
     and_then (effect ExtractFrames (ffmpeg_extract env video_bytes)) (\<lambda>listing.
     and_then (sorted_frames env listing) (\<lambda>frame_paths.
     if frame_paths = [] then ret [(''error'', PyStr ''No frames extracted from video'')]
     else
       and_then (effect OpenImage (image_size env (content (frame_paths ! 0)))) (\<lambda>(width, height).
       and_then (effects (map (\<lambda>i. ReadFile (FrameJpg i)) [0..<length frame_paths])) (\<lambda>_.
       segment_frames env (map content frame_paths) width height original_fps)))))))))"

text \<open>
  Lines 115-134: the payload. The request is the dictionary \<open>data\<close>;
  \<^verbatim>\<open>data.get("video_base64", "")\<close> reads a missing key as the empty string. What
  \<^verbatim>\<open>base64.b64decode\<close> returns is the video the rest of the handler works on.
\<close>

definition segment :: "'st env \<Rightarrow> (string \<rightharpoonup> string) \<Rightarrow> response act" where
  "segment env data =
     (let video_b64 = (case data ''video_base64'' of None \<Rightarrow> [] | Some v \<Rightarrow> v) in
      if video_b64 = [] then ret [(''error'', PyStr ''No video_base64 provided'')]
      else
        and_then (lift (strip_data_url video_b64)) (\<lambda>video_b64.
        and_then (effect (B64Decode video_b64) (b64decode env video_b64)) (\<lambda>video_bytes.
        segment_bytes env video_bytes)))"

section \<open>The RunPod endpoint (runpod\_sam2.py, \<^verbatim>\<open>segment_video\<close>, lines 41-165)\<close>

text \<open>
  \<^verbatim>\<open>segment_video\<close> is a coroutine: a StopIteration raised inside its body leaves it as
  \<^verbatim>\<open>RuntimeError("coroutine raised StopIteration")\<close>.
\<close>

definition in_coroutine :: "error + 'a \<Rightarrow> error + 'a" where
  "in_coroutine r =
     (case r of
        Inl StopIteration \<Rightarrow> Inl (RuntimeError ''coroutine raised StopIteration'')
      | _ \<Rightarrow> r)"

text \<open>Lines 120-134: one mask image per frame, sized as that frame, saved as a PNG file.\<close>

definition render_masks :: "'st env \<Rightarrow> dir_entry list \<Rightarrow> video_segments \<Rightarrow> bytes list act" where
  "render_masks env frame_names video_segments =
     for_each (\<lambda>frame_idx.
         and_then (effect OpenImage (image_size env (content (frame_names ! frame_idx)))) (\<lambda>(w, h).
         and_then (lift (render_frame video_segments h w frame_idx)) (\<lambda>mask_img.
         and_then (effects [WriteFile (MaskPng frame_idx)]) (\<lambda>_.
         ret (png_save env mask_img)))))
       [0..<length frame_names]"

text \<open>Lines 84-165: model handle, tracking over all frames, rendering, probe, encoding.\<close>

definition segment_video_frames :: "'st env \<Rightarrow> bytes \<Rightarrow> dir_entry list \<Rightarrow> response act" where
  "segment_video_frames env video_bytes frame_names =
     and_then (if model_cached env then ret () else effect LoadModel (from_pretrained env)) (\<lambda>_.
     and_then (effect OpenImage (image_size env (content (frame_names ! 0)))) (\<lambda>(width, height).
     and_then (track_video env (map content frame_names) width height) (\<lambda>video_segments.
     and_then (effects [Mkdir MasksDir]) (\<lambda>_.
     and_then (render_masks env frame_names video_segments) (\<lambda>mask_pngs.
     and_then (effect Probe (ffprobe env video_bytes)) (\<lambda>streams.
     and_then (lift (in_coroutine (find_video_stream streams))) (\<lambda>video_stream.
     and_then (frame_rate env video_stream) (\<lambda>fps.
     and_then (effect Encode (ffmpeg_encode env fps mask_pngs)) (\<lambda>result.
     if returncode result \<noteq> 0
     then ret [(''error'', PyStr (''ffmpeg encode failed: '' @ last500 (stderr result)))]
     else
       and_then (effect (ReadFile MaskMp4) (output_file result)) (\<lambda>result_bytes.
       ret [(''mask_video_base64'', PyStr (b64encode env result_bytes)),
            (''num_frames'', PyInt (int (length frame_names))),
            (''fps'', PyFloat fps)]))))))))))"

text \<open>Lines 62-82: the temporary input file and the frame extraction.\<close>

definition segment_video_bytes :: "'st env \<Rightarrow> bytes \<Rightarrow> response act" where
  "segment_video_bytes env video_bytes =
     and_then (effects [Mkdtemp, WriteFile InputMp4, Mkdir FramesDir]) (\<lambda>_.
     and_then (effect ExtractFrames (ffmpeg_extract env video_bytes)) (\<lambda>listing.
     and_then (sorted_frames env listing) (\<lambda>frame_names.
     if frame_names = [] then ret [(''error'', PyStr ''No frames extracted from video'')]
     else segment_video_frames env video_bytes frame_names)))"

text \<open>Lines 52-60: the payload.\<close>

definition segment_video :: "'st env \<Rightarrow> (string \<rightharpoonup> string) \<Rightarrow> response act" where
  "segment_video env input_data =
     (let video_b64 = (case input_data ''video_base64'' of None \<Rightarrow> [] | Some v \<Rightarrow> v) in
      if video_b64 = [] then ret [(''error'', PyStr ''No video_base64 provided'')]
      else
        and_then (lift (strip_data_url video_b64)) (\<lambda>video_b64.
        and_then (effect (B64Decode video_b64) (b64decode env video_b64)) (\<lambda>video_bytes.
        segment_video_bytes env video_bytes)))"

section \<open>Auxiliary definitions for the proofs\<close>

text \<open>The value of \<^verbatim>\<open>frames_per_chunk\<close> for a video of \<open>n\<close> frames.\<close>

definition chunk_size :: "nat \<Rightarrow> nat" where
  "chunk_size n = (n + min MAX_PARALLEL_CHUNKS n - 1) div min MAX_PARALLEL_CHUNKS n"

text \<open>
  A small concrete environment on which the definitions can be run. A video is a string
  of at most ten bytes, each byte one frame of two pixels by two; the tracker finds the
  object in the top left pixel of every frame whose byte is not zero, and yields nothing for
  a zero byte. The tracking state is the list of frames it was opened on.
\<close>

definition toy_int :: "string \<Rightarrow> error + int" where
  "toy_int s =
     (if s \<noteq> [] \<and> list_all (\<lambda>c. (48::nat) \<le> of_char c \<and> (of_char c :: nat) \<le> 57) s
      then Inr (foldl (\<lambda>n c. 10 * n + (int (of_char c) - 48)) 0 s)
      else Inl ValueError)"

definition toy_extract :: "bytes \<Rightarrow> error + dir_entry list" where
  "toy_extract v =
     Inr (map2 (\<lambda>s b. \<lparr>stem = s, suffix = ''.jpg'', content = [b]\<rparr>)
            [''00000'', ''00001'', ''00002'', ''00003'', ''00004'',
             ''00005'', ''00006'', ''00007'', ''00008'', ''00009''] v)"

definition toy_logits :: logits where
  "toy_logits = Tensor 2 2 (\<lambda>r c. if r = 0 \<and> c = 0 then 1 else - 1)"

definition toy_mask :: mask where
  "toy_mask = Tensor 2 2 (\<lambda>r c. r = 0 \<and> c = 0)"

definition toy_propagate :: "bytes list \<Rightarrow> error + yield list" where
  "toy_propagate st =
     Inr (map (\<lambda>i. (i, [1], [toy_logits])) (filter (\<lambda>i. st ! i \<noteq> [0]) [0..<length st]))"

definition toy_env :: "bytes list env" where
  "toy_env =
     \<lparr> b64decode = (\<lambda>s. Inr (map (\<lambda>c. of_nat (of_char c)) s)),
       b64encode = map (\<lambda>b. char_of (unat b)),
       ffprobe = (\<lambda>v. Inr [\<lparr>codec_type = ''video'', r_frame_rate = ''30/1''\<rparr>]),
       py_int = toy_int,
       ffmpeg_extract = toy_extract,
       image_size = (\<lambda>jpg. Inr (2, 2)),
       from_pretrained = Inr (),
       model_cached = False,
       init_state = Inr,
       add_new_points_or_box = (\<lambda>st frame_idx obj_id point label. Inr st),
       propagate_in_video = toy_propagate,
       png_save = (\<lambda>img. map fst (concat img)),
       ffmpeg_encode = (\<lambda>fps pngs. Inr \<lparr>returncode = 0, stderr = [], output_file = Inr (concat pngs)\<rparr>),
       completion_delay = (\<lambda>i. 0),
       elapsed = 0 \<rparr>"

text \<open>
  The calls to the video predictor that a trace holds, in order: \<open>init_state\<close> with
  the frames it was called on, the point prompt, the propagation.
\<close>

fun tracker_event :: "event \<Rightarrow> bool" where
  "tracker_event (InitState frames) = True"
| "tracker_event (AddPoint frame_idx obj_id point label) = True"
| "tracker_event Propagate = True"
| "tracker_event e = False"

definition tracker_calls :: "event list \<Rightarrow> event list" where
  "tracker_calls trace = filter tracker_event trace"

text \<open>What one run of the tracking protocol over \<open>frames\<close> leaves in the trace when it succeeds.\<close>

definition tracking_run :: "bytes list \<Rightarrow> nat \<Rightarrow> nat \<Rightarrow> event list" where
  "tracking_run frames width height =
     [InitState frames, AddPoint 0 1 (width div 2, height div 2) 1, Propagate]"

text \<open>The events of a worker: everything but the two dispatch markers.\<close>

fun worker_event :: "event \<Rightarrow> bool" where
  "worker_event (PoolMap n) = False"
| "worker_event LocalCall = False"
| "worker_event e = True"

text \<open>The same environment with a failing encoder, a failing probe and a failing model.\<close>

definition encode_fails_env :: "bytes list env" where
  "encode_fails_env =
     toy_env\<lparr>ffmpeg_encode :=
       (\<lambda>fps pngs. Inr \<lparr>returncode = 1, stderr = ''Invalid frame rate'', output_file = Inl OSError\<rparr>)\<rparr>"



section \<open>Properties of the partition\<close>

lemma concat_chunk_loop:
  "0 < step \<Longrightarrow> concat (chunk_loop i step xs) = drop i xs"
proof (induction i step xs rule: chunk_loop.induct)
  case (1 i step xs)
  show ?case
  proof (cases "length xs \<le> i")
    case True
    then show ?thesis by (simp add: chunk_loop.simps)
  next
    case False
    with 1 have "concat (chunk_loop (i + step) step xs) = drop (i + step) xs" by simp
    moreover have "drop (i + step) xs = drop step (drop i xs)" by (simp add: add.commute)
    ultimately have "concat (chunk_loop (i + step) step xs) = drop step (drop i xs)" by simp
    moreover have "chunk_loop i step xs = take step (drop i xs) # chunk_loop (i + step) step xs"
      using False 1(2) by (subst chunk_loop.simps) simp
    ultimately show ?thesis by (simp only: concat.simps append_take_drop_id)
  qed
qed

lemma length_chunk_loop:
  "0 < step \<Longrightarrow> length (chunk_loop i step xs) = (length xs - i + step - 1) div step"
proof (induction i step xs rule: chunk_loop.induct)
  case (1 i step xs)
  show ?case
  proof (cases "length xs \<le> i")
    case True
    with 1(2) show ?thesis by (simp add: chunk_loop.simps)
  next
    case False
    with 1 have IH: "length (chunk_loop (i + step) step xs) = (length xs - (i + step) + step - 1) div step" by simp
    have "(length xs - i + step - 1) div step = Suc ((length xs - (i + step) + step - 1) div step)"
    proof (cases "length xs - i \<le> step")
      case True
      with False 1(2) have "(length xs - i + step - 1) div step = 1"
        by (intro div_nat_eqI) auto
      moreover from True 1(2) have "(length xs - (i + step) + step - 1) div step = 0" by simp
      ultimately show ?thesis by simp
    next
      case F2: False
      then have e: "length xs - i + step - 1 = (length xs - (i + step) + step - 1) + step" by simp
      have "((length xs - (i + step) + step - 1) + step) div step
            = Suc ((length xs - (i + step) + step - 1) div step)"
        using 1(2) by (simp only: div_add_self2 [OF less_imp_neq [THEN not_sym]] Suc_eq_plus1)
      with e show ?thesis by (simp only:)
    qed
    with IH False 1(2) show ?thesis by (subst chunk_loop.simps) simp
  qed
qed

lemma nth_chunk_loop:
  "0 < step \<Longrightarrow> c < length (chunk_loop i step xs) \<Longrightarrow>
   chunk_loop i step xs ! c = take step (drop (i + c * step) xs)"
proof (induction i step xs arbitrary: c rule: chunk_loop.induct)
  case (1 i step xs)
  show ?case
  proof (cases "length xs \<le> i")
    case True
    with 1(3) show ?thesis by (simp add: chunk_loop.simps)
  next
    case False
    then have unf: "chunk_loop i step xs = take step (drop i xs) # chunk_loop (i + step) step xs"
      using 1(2) by (subst chunk_loop.simps) simp
    show ?thesis
    proof (cases c)
      case 0
      then show ?thesis by (simp add: unf)
    next
      case (Suc c')
      with 1(3) unf have "c' < length (chunk_loop (i + step) step xs)" by simp
      with 1(1) [of c'] False 1(2) have "chunk_loop (i + step) step xs ! c' = take step (drop (i + step + c' * step) xs)" by simp
      with Suc show ?thesis by (simp add: unf add.assoc)
    qed
  qed
qed


lemma ceil_div_mult_ge: "0 < k \<Longrightarrow> (n::nat) \<le> ((n + k - 1) div k) * k"
proof -
  assume k: "0 < k"
  have "(n + k - 1) div k * k + (n + k - 1) mod k = n + k - 1" by simp
  moreover have "(n + k - 1) mod k < k" using k by simp
  ultimately show ?thesis by linarith
qed

lemma ceil_div_le: "0 < s \<Longrightarrow> (n::nat) \<le> m * s \<Longrightarrow> (n + s - 1) div s \<le> m"
proof -
  assume s: "0 < s" and le: "n \<le> m * s"
  then have "n + s - 1 \<le> m * s + (s - 1)" by simp
  then have "(n + s - 1) div s \<le> (m * s + (s - 1)) div s" by (rule div_le_mono)
  also have "\<dots> = m" using s by (intro div_nat_eqI) (auto simp: algebra_simps)
  finally show ?thesis .
qed

lemma lt_ceil_div: "0 < s \<Longrightarrow> c < ((n::nat) + s - 1) div s \<Longrightarrow> c * s < n"
  using ceil_div_le [of s n c] by (cases "n \<le> c * s") auto


lemma chunk_size_pos: "0 < n \<Longrightarrow> 0 < chunk_size n"
proof -
  assume n: "0 < n"
  let ?K = "min MAX_PARALLEL_CHUNKS n"
  have K: "0 < ?K" using n by (simp add: MAX_PARALLEL_CHUNKS_def)
  moreover have "?K \<le> n + ?K - 1" using n by linarith
  ultimately show ?thesis unfolding chunk_size_def by (simp only: div_greater_zero_iff)
qed

lemma split_chunks_eq:
  "frames \<noteq> [] \<Longrightarrow> split_chunks frames = Inr (chunk_loop 0 (chunk_size (length frames)) frames)"
  using chunk_size_pos [of "length frames"]
  by (simp add: split_chunks_def py_ceil_div_def Let_def chunk_size_def MAX_PARALLEL_CHUNKS_def)

lemma split_chunks_length:
  "frames \<noteq> [] \<Longrightarrow> split_chunks frames = Inr chunks \<Longrightarrow>
   length chunks = (length frames + chunk_size (length frames) - 1) div chunk_size (length frames)"
proof -
  assume ne: "frames \<noteq> []" and sc: "split_chunks frames = Inr chunks"
  have pos: "0 < chunk_size (length frames)" using ne by (simp add: chunk_size_pos)
  from sc split_chunks_eq [OF ne] have "chunks = chunk_loop 0 (chunk_size (length frames)) frames"
    by simp
  then show ?thesis using length_chunk_loop [OF pos, of 0 frames] by simp
qed

lemma split_chunks_nth:
  "frames \<noteq> [] \<Longrightarrow> split_chunks frames = Inr chunks \<Longrightarrow> c < length chunks \<Longrightarrow>
   chunks ! c = take (chunk_size (length frames)) (drop (c * chunk_size (length frames)) frames)"
  using chunk_size_pos [of "length frames"]
  by (auto simp add: split_chunks_eq nth_chunk_loop)

lemma split_chunks_concat:
  "frames \<noteq> [] \<Longrightarrow> split_chunks frames = Inr chunks \<Longrightarrow> concat chunks = frames"
  using chunk_size_pos [of "length frames"]
  by (auto simp add: split_chunks_eq concat_chunk_loop)

lemma split_chunks_start:
  "frames \<noteq> [] \<Longrightarrow> split_chunks frames = Inr chunks \<Longrightarrow> c < length chunks \<Longrightarrow>
   c * chunk_size (length frames) < length frames"
  using chunk_size_pos [of "length frames"] lt_ceil_div [of "chunk_size (length frames)" c "length frames"]
  by (simp add: split_chunks_length)

lemma split_chunks_count_le:
  "frames \<noteq> [] \<Longrightarrow> split_chunks frames = Inr chunks \<Longrightarrow>
   length chunks \<le> min MAX_PARALLEL_CHUNKS (length frames)"
proof -
  assume ne: "frames \<noteq> []" and sc: "split_chunks frames = Inr chunks"
  let ?K = "min MAX_PARALLEL_CHUNKS (length frames)"
  have K: "0 < ?K" using ne by (simp add: MAX_PARALLEL_CHUNKS_def)
  have "length frames \<le> chunk_size (length frames) * ?K"
    unfolding chunk_size_def using ceil_div_mult_ge [OF K] .
  then have "length frames \<le> ?K * chunk_size (length frames)" by (simp add: mult.commute)
  with chunk_size_pos [of "length frames"] ne
  have "(length frames + chunk_size (length frames) - 1) div chunk_size (length frames) \<le> ?K"
    by (intro ceil_div_le) auto
  with split_chunks_length [OF ne sc] show ?thesis by simp
qed

lemma split_chunks_count_pos:
  "frames \<noteq> [] \<Longrightarrow> split_chunks frames = Inr chunks \<Longrightarrow> 1 \<le> length chunks"
proof -
  assume ne: "frames \<noteq> []" and sc: "split_chunks frames = Inr chunks"
  have pos: "0 < chunk_size (length frames)" using ne by (simp add: chunk_size_pos)
  have "chunk_size (length frames) \<le> length frames + chunk_size (length frames) - 1"
    using ne by (cases frames) auto
  with pos have "0 < (length frames + chunk_size (length frames) - 1) div chunk_size (length frames)"
    by (simp only: div_greater_zero_iff)
  with split_chunks_length [OF ne sc] show ?thesis by simp
qed


section \<open>Sequencing of effects\<close>

lemma and_then_InrE:
  assumes "and_then m f = (t, Inr y)"
  obtains t1 x t2 where "m = (t1, Inr x)" "f x = (t2, Inr y)" "t = t1 @ t2"
  using assms by (auto simp: and_then_def split: prod.splits sum.splits)

lemma and_then_simps [simp]:
  "and_then (ret x) f = f x"
  "and_then (raise e) f = raise e"
  "and_then (lift (Inr x)) f = f x"
  "and_then (lift (Inl e)) f = raise e"
  "and_then (effect ev (Inr x)) f = (ev # fst (f x), snd (f x))"
  "and_then (effect ev (Inl e)) f = ([ev], Inl e)"
  "and_then (effects evs) g = (evs @ fst (g ()), snd (g ()))"
  by (auto simp: and_then_def ret_def raise_def lift_def effect_def effects_def split: prod.splits)

lemma fst_and_then:
  "fst (and_then m f) = fst m @ (case snd m of Inl e \<Rightarrow> [] | Inr x \<Rightarrow> fst (f x))"
  by (auto simp: and_then_def split: prod.splits sum.splits)

lemma snd_and_then:
  "snd (and_then m f) = (case snd m of Inl e \<Rightarrow> Inl e | Inr x \<Rightarrow> snd (f x))"
  by (auto simp: and_then_def split: prod.splits sum.splits)

section \<open>Properties of the request intake\<close>

lemma py_split1_first:
  "sep \<notin> set p \<Longrightarrow> py_split1 sep (p @ sep # rest) = [p, rest]"
  by (induction p) auto

lemma strip_data_url_comma:
  "CHR '','' \<notin> set p \<Longrightarrow> strip_data_url (p @ CHR '','' # rest) = Inr rest"
  by (simp add: strip_data_url_def py_split1_first py_nth_def)

lemma strip_data_url_plain:
  "CHR '','' \<notin> set s \<Longrightarrow> strip_data_url s = Inr s"
  by (simp add: strip_data_url_def)

lemma segment_payload:
  "input ''video_base64'' = Some s \<Longrightarrow> s \<noteq> [] \<Longrightarrow> strip_data_url s = Inr r \<Longrightarrow>
   segment env input = and_then (effect (B64Decode r) (b64decode env r)) (segment_bytes env)"
  by (simp add: segment_def del: and_then_simps) (simp add: and_then_def lift_def)

lemma segment_video_payload:
  "input ''video_base64'' = Some s \<Longrightarrow> s \<noteq> [] \<Longrightarrow> strip_data_url s = Inr r \<Longrightarrow>
   segment_video env input
     = and_then (effect (B64Decode r) (b64decode env r)) (segment_video_bytes env)"
  by (simp add: segment_video_def del: and_then_simps) (simp add: and_then_def lift_def)

lemma act_parts [simp]:
  "fst (ret x) = []" "snd (ret x) = Inr x"
  "fst (raise e) = []" "snd (raise e) = Inl e"
  "fst (lift r) = []" "snd (lift r) = r"
  "fst (effect ev r) = [ev]" "snd (effect ev r) = r"
  "fst (effects evs) = evs" "snd (effects evs) = Inr ()"
  by (simp_all add: ret_def raise_def lift_def effect_def effects_def)

lemma tc_simps [simp]:
  "tracker_calls [] = []"
  "tracker_calls (e # es) = (if tracker_event e then e # tracker_calls es else tracker_calls es)"
  by (simp_all add: tracker_calls_def)

section \<open>Properties of loops, tracking and the worker\<close>

lemma for_each_Inr:
  "for_each f xs = (t, Inr ys) \<Longrightarrow>
   length ys = length xs \<and> (\<forall>i<length xs. \<exists>ti. f (xs ! i) = (ti, Inr (ys ! i)))"
proof (induction xs arbitrary: t ys)
  case Nil
  then show ?case by (simp add: ret_def)
next
  case (Cons x xs)
  from Cons.prems obtain t1 y t2 ys' where
    fx: "f x = (t1, Inr y)" and rest: "for_each f xs = (t2, Inr ys')" and ys: "ys = y # ys'"
    by (auto elim!: and_then_InrE simp: ret_def simp del: and_then_simps)
  from Cons.IH [OF rest] have len: "length ys' = length xs"
    and nth: "\<forall>i<length xs. \<exists>ti. f (xs ! i) = (ti, Inr (ys' ! i))" by simp_all
  show ?case
  proof (intro conjI allI impI)
    show "length ys = length (x # xs)" using len ys by simp
  next
    fix i assume "i < length (x # xs)"
    then show "\<exists>ti. f ((x # xs) ! i) = (ti, Inr (ys ! i))"
      using fx nth ys by (cases i) auto
  qed
qed

lemma for_each_no_events:
  "(\<And>x. fst (f x) = []) \<Longrightarrow> fst (for_each f xs) = []"
  by (induction xs) (simp_all add: fst_and_then ret_def split: sum.splits del: and_then_simps)


lemma fst_track_video:
  "fst (track_video env frames w h) =
     (case init_state env frames of
        Inl e \<Rightarrow> [InitState frames]
      | Inr st \<Rightarrow>
          (case add_new_points_or_box env st 0 1 (w div 2, h div 2) 1 of
             Inl e \<Rightarrow> [InitState frames, AddPoint 0 1 (w div 2, h div 2) 1]
           | Inr st' \<Rightarrow> tracking_run frames w h))"
  by (simp add: track_video_def Let_def fst_and_then effect_def lift_def tracking_run_def
      split: sum.splits del: and_then_simps)



lemma worker_events_track_video:
  "list_all worker_event (fst (track_video env frames w h))"
  by (simp add: fst_track_video tracking_run_def split: sum.splits)


lemma fst_segment_chunk:
  "fst (segment_chunk env frames w h) =
     Mkdtemp # Mkdir FramesDir # map (\<lambda>i. WriteFile (FrameJpg i)) [0..<length frames]
       @ fst (track_video env frames w h)"
proof -
  have fe: "fst (for_each (\<lambda>frame_idx.
         and_then (lift (render_frame vs h w frame_idx)) (\<lambda>mask_img.
         ret (png_save env mask_img))) xs) = []" for vs xs
    by (rule for_each_no_events)
       (simp add: fst_and_then lift_def ret_def split: sum.splits del: and_then_simps)
  show ?thesis
    using fe
    by (simp add: segment_chunk_def fst_and_then effects_def split: sum.splits
        del: and_then_simps)
qed


lemma worker_events_segment_chunk:
  "list_all worker_event (fst (segment_chunk env frames w h))"
proof -
  have "list_all worker_event (map (\<lambda>i. WriteFile (FrameJpg i)) xs)" for xs
    by (induction xs) simp_all
  then show ?thesis
    using worker_events_track_video [of env frames w h] by (simp add: fst_segment_chunk)
qed

section \<open>Properties of the worker pool and the dispatcher\<close>

lemma filter_eq_singleton:
  "distinct xs \<Longrightarrow> j \<in> set xs \<Longrightarrow> filter (\<lambda>i. j = i) xs = [j]"
  by (induction xs) (auto simp: filter_empty_conv)

lemma sort_key_fst_tagged:
  assumes "mset completion = mset [0..<n]"
  shows "sort_key fst (map (\<lambda>i. (i, g i)) completion) = map (\<lambda>i. (i, g i)) [0..<n]"
proof (rule properties_for_sort_key)
  show "mset (map (\<lambda>i. (i, g i)) [0..<n]) = mset (map (\<lambda>i. (i, g i)) completion)"
    using assms by (metis mset_map)
next
  have d: "distinct completion" using assms by (metis distinct_upt mset_eq_imp_distinct_iff)
  have s: "set completion = {0..<n}" using assms by (metis mset_eq_setD set_upt)
  fix k assume "k \<in> set (map (\<lambda>i. (i, g i)) [0..<n])"
  then obtain j where j: "j < n" "k = (j, g j)" by auto
  have "filter (\<lambda>x. fst k = fst x) (map (\<lambda>i. (i, g i)) [0..<n])
        = map (\<lambda>i. (i, g i)) (filter (\<lambda>i. j = i) [0..<n])"
    using j by (simp add: filter_map comp_def)
  also have "filter (\<lambda>i. j = i) [0..<n] = [j]" using j by (intro filter_eq_singleton) auto
  also have "[j] = filter (\<lambda>i. j = i) completion"
    using j d s by (intro filter_eq_singleton [symmetric]) auto
  also have "map (\<lambda>i. (i, g i)) (filter (\<lambda>i. j = i) completion)
        = filter (\<lambda>x. fst k = fst x) (map (\<lambda>i. (i, g i)) completion)"
    using j by (simp add: filter_map comp_def)
  finally show "filter (\<lambda>x. fst k = fst x) (map (\<lambda>i. (i, g i)) [0..<n])
        = filter (\<lambda>x. fst k = fst x) (map (\<lambda>i. (i, g i)) completion)" .
next
  show "sorted (map fst (map (\<lambda>i. (i, g i)) [0..<n]))" by (simp add: comp_def)
qed

lemma snd_pool_map:
  "snd (pool_map delay f xs) = sequence (map (\<lambda>x. snd (f x)) xs)"
proof -
  have "sort_key fst (map (\<lambda>i. (i, f (xs ! i))) (sort_key delay [0..<length xs]))
        = map (\<lambda>i. (i, f (xs ! i))) [0..<length xs]"
    by (rule sort_key_fst_tagged) simp
  moreover have "map (\<lambda>i. snd (f (xs ! i))) [0..<length xs] = map (\<lambda>x. snd (f x)) xs"
    by (rule nth_equalityI) simp_all
  ultimately show ?thesis by (simp add: pool_map_def Let_def comp_def case_prod_unfold)
qed

lemma fst_pool_map:
  "fst (pool_map delay f xs) =
     PoolMap (length xs) # concat (map (\<lambda>i. fst (f (xs ! i))) (sort_key delay [0..<length xs]))"
  by (simp add: pool_map_def Let_def comp_def case_prod_unfold)

lemma sequence_Inr:
  "sequence rs = Inr ys \<Longrightarrow> rs = map Inr ys"
proof (induction rs arbitrary: ys)
  case Nil
  then show ?case by simp
next
  case (Cons r rs)
  then show ?case by (cases r) (auto split: sum.splits)
qed

lemma sequence_Inl:
  "Inl e \<in> set rs \<Longrightarrow> \<exists>e'. sequence rs = Inl e'"
proof (induction rs)
  case Nil
  then show ?case by simp
next
  case (Cons r rs)
  then show ?case by (cases r) (auto split: sum.splits)
qed

lemma foldl_append_concat: "foldl (\<lambda>acc ys. acc @ ys) a xss = a @ concat xss"
  by (induction xss arbitrary: a) simp_all

lemma snd_dispatch_Inr:
  assumes "snd (dispatch env chunks w h) = Inr masks"
  shows "\<exists>results. length results = length chunks
           \<and> (\<forall>c<length chunks. snd (segment_chunk env (chunks ! c) w h) = Inr (results ! c))
           \<and> masks = concat results"
proof (cases "length chunks = 1")
  case True
  with assms have "snd (segment_chunk env (chunks ! 0) w h) = Inr masks"
    by (simp add: dispatch_def)
  with True show ?thesis by (intro exI [of _ "[masks]"]) simp
next
  case False
  show ?thesis
  proof (cases "sequence (map (\<lambda>c. snd (segment_chunk env c w h)) chunks)")
    case (Inl e)
    with assms False show ?thesis
      by (simp add: dispatch_def snd_and_then snd_pool_map del: and_then_simps)
  next
    case (Inr results)
    with assms False have m: "masks = concat results"
      by (simp add: dispatch_def snd_and_then snd_pool_map ret_def foldl_append_concat
          del: and_then_simps)
    from sequence_Inr [OF Inr]
    have eq: "map (\<lambda>c. snd (segment_chunk env c w h)) chunks = map Inr results" .
    have len: "length results = length chunks"
      using arg_cong [OF eq, of length] by simp
    have "snd (segment_chunk env (chunks ! c) w h) = Inr (results ! c)"
      if "c < length chunks" for c
      using arg_cong [OF eq, of "\<lambda>rs. rs ! c"] that len by simp
    with len m show ?thesis by blast
  qed
qed

lemma concat_nth_chunks:
  assumes "0 < s"
    and "\<forall>c<length ys. length (ys ! c) \<le> s"
    and "\<forall>c. Suc c < length ys \<longrightarrow> length (ys ! c) = s"
    and "i < length (concat ys)"
  shows "i div s < length ys \<and> i mod s < length (ys ! (i div s))
         \<and> concat ys ! i = ys ! (i div s) ! (i mod s)"
  using assms
proof (induction ys arbitrary: i)
  case Nil
  then show ?case by simp
next
  case (Cons y ys)
  show ?case
  proof (cases "i < length y")
    case True
    from Cons.prems(2) have "length y \<le> s" by auto
    with True have "i < s" by simp
    then have "i div s = 0" "i mod s = i" by simp_all
    with True show ?thesis by (simp add: nth_append)
  next
    case False
    with Cons.prems(4) have ne: "ys \<noteq> []" by auto
    then have "Suc 0 < length (y # ys)" by (cases ys) auto
    with Cons.prems(3) have ly: "length y = s" by (metis nth_Cons_0)
    with False have ge: "s \<le> i" by simp
    have p2: "\<forall>c<length ys. length (ys ! c) \<le> s"
      using Cons.prems(2) by (metis Suc_less_eq length_Cons nth_Cons_Suc)
    have p3: "\<forall>c. Suc c < length ys \<longrightarrow> length (ys ! c) = s"
      using Cons.prems(3) by (metis Suc_less_eq length_Cons nth_Cons_Suc)
    have p4: "i - s < length (concat ys)" using Cons.prems(4) ly ge by simp
    from Cons.IH [OF Cons.prems(1) p2 p3 p4]
    have IH: "(i - s) div s < length ys" "(i - s) mod s < length (ys ! ((i - s) div s))"
      "concat ys ! (i - s) = ys ! ((i - s) div s) ! ((i - s) mod s)" by simp_all
    have d: "i div s = Suc ((i - s) div s)" using ge Cons.prems(1) by (simp add: le_div_geq)
    have m: "i mod s = (i - s) mod s" using ge by (simp add: le_mod_geq)
    have c: "concat (y # ys) ! i = concat ys ! (i - s)" using False ly by (simp add: nth_append)
    from IH d m c show ?thesis by simp
  qed
qed

lemma split_chunks_nonempty:
  "split_chunks frames = Inr chunks \<Longrightarrow> frames \<noteq> []"
  by (auto simp: split_chunks_def py_ceil_div_def MAX_PARALLEL_CHUNKS_def)

lemma split_chunks_sizes:
  assumes "split_chunks frames = Inr chunks"
  shows "\<forall>c<length chunks. length (chunks ! c) \<le> chunk_size (length frames)"
    and "\<forall>c. Suc c < length chunks \<longrightarrow> length (chunks ! c) = chunk_size (length frames)"
proof -
  have ne: "frames \<noteq> []" using assms by (rule split_chunks_nonempty)
  show "\<forall>c<length chunks. length (chunks ! c) \<le> chunk_size (length frames)"
    using split_chunks_nth [OF ne assms] by simp
  show "\<forall>c. Suc c < length chunks \<longrightarrow> length (chunks ! c) = chunk_size (length frames)"
  proof (intro allI impI)
    fix c assume c: "Suc c < length chunks"
    then have "c < length chunks" by simp
    from split_chunks_nth [OF ne assms this]
    have "length (chunks ! c) = min (length frames - c * chunk_size (length frames)) (chunk_size (length frames))"
      by simp
    moreover from split_chunks_start [OF ne assms c]
    have "c * chunk_size (length frames) + chunk_size (length frames) < length frames" by simp
    ultimately show "length (chunks ! c) = chunk_size (length frames)" by simp
  qed
qed

lemma segment_chunk_Inr:
  assumes "segment_chunk env frame_jpegs width height = (t, Inr mask_pngs)"
  shows "length mask_pngs = length frame_jpegs \<and>
         (\<exists>t' video_segments. track_video env frame_jpegs width height = (t', Inr video_segments) \<and>
            (\<forall>i<length frame_jpegs. \<exists>img.
               render_frame video_segments height width i = Inr img \<and> mask_pngs ! i = png_save env img))"
proof -
  from assms obtain t' vs t2 where
    tv: "track_video env frame_jpegs width height = (t', Inr vs)" and
    fe: "for_each (\<lambda>frame_idx.
           and_then (lift (render_frame vs height width frame_idx)) (\<lambda>mask_img.
           ret (png_save env mask_img))) [0..<length frame_jpegs] = (t2, Inr mask_pngs)"
    unfolding segment_chunk_def
    by (auto elim!: and_then_InrE simp: effects_def simp del: and_then_simps)
  from for_each_Inr [OF fe] have len: "length mask_pngs = length frame_jpegs"
    and nth: "\<forall>i<length frame_jpegs. \<exists>ti.
        and_then (lift (render_frame vs height width i)) (\<lambda>mask_img. ret (png_save env mask_img))
        = (ti, Inr (mask_pngs ! i))" by simp_all
  have "\<exists>img. render_frame vs height width i = Inr img \<and> mask_pngs ! i = png_save env img"
    if "i < length frame_jpegs" for i
  proof -
    from nth that obtain ti where
      "and_then (lift (render_frame vs height width i)) (\<lambda>mask_img. ret (png_save env mask_img))
        = (ti, Inr (mask_pngs ! i))" by blast
    then show ?thesis
      by (cases "render_frame vs height width i") (simp_all add: ret_def raise_def)
  qed
  with len tv show ?thesis by blast
qed

lemma segment_chunk_delay:
  "segment_chunk (env\<lparr>completion_delay := d\<rparr>) frames w h = segment_chunk env frames w h"
  by (simp add: segment_chunk_def track_video_def)

lemma snd_dispatch_delay:
  "snd (dispatch (env\<lparr>completion_delay := d\<rparr>) chunks w h) = snd (dispatch env chunks w h)"
  by (simp add: dispatch_def snd_and_then snd_pool_map segment_chunk_delay del: and_then_simps)

lemma fst_dispatch_local:
  "length chunks = 1 \<Longrightarrow>
   fst (dispatch env chunks w h) = LocalCall # fst (segment_chunk env (chunks ! 0) w h)"
  by (simp add: dispatch_def)

lemma fst_dispatch_pool:
  "length chunks \<noteq> 1 \<Longrightarrow>
   fst (dispatch env chunks w h) =
     PoolMap (length chunks)
       # concat (map (\<lambda>i. fst (segment_chunk env (chunks ! i) w h))
                  (sort_key (completion_delay env) [0..<length chunks]))"
  by (simp add: dispatch_def fst_and_then fst_pool_map ret_def split: sum.splits
      del: and_then_simps)

lemma length_concat_same_shape:
  "length xs = length ys \<Longrightarrow> \<forall>c<length xs. length (xs ! c) = length (ys ! c) \<Longrightarrow>
   length (concat xs) = length (concat ys)"
proof -
  assume "length xs = length ys" "\<forall>c<length xs. length (xs ! c) = length (ys ! c)"
  then have "map length xs = map length ys" by (intro nth_equalityI) simp_all
  then show ?thesis by (simp add: length_concat)
qed


section \<open>Calls to the tracker made by the two wrappers\<close>








lemma sort_key_upt_one: "sort_key d [0..<Suc 0] = [0]"
  by simp


lemma set_completion: "set (sort_key d [0..<n]) = {0..<n}"
  by simp














section \<open>Failures: reported or raised\<close>





















section \<open>Running the definitions on the concrete environment\<close>

text \<open>
  Evaluation proceeds call by value: the congruence rule keeps the simplifier out of a
  continuation until the computation before it has been reduced to its events and result.
\<close>

lemma and_then_weak_cong: "m = m' \<Longrightarrow> and_then m f = and_then m' f"
  by simp

lemma and_then_pair:
  "and_then (t, Inr x) f = (case f x of (t', r) \<Rightarrow> (t @ t', r))"
  "and_then (t, Inl e) f = (t, Inl e)"
  by (simp_all add: and_then_def)

lemmas act_defs = ret_def raise_def lift_def effect_def effects_def and_then_pair Let_def

lemma toy_threshold: "threshold toy_logits = toy_mask"
  by (simp add: threshold_def toy_logits_def toy_mask_def fun_eq_iff)

lemma upt_two: "[0..<2] = [0, Suc 0]"
  by (simp add: numeral_2_eq_2)

lemma toy_squeeze: "squeeze toy_mask = Index2 2 2 (\<lambda>r c. r = 0 \<and> c = 0)"
  by (simp add: squeeze_def toy_mask_def)

lemmas worker_defs = segment_chunk_def track_video_def render_frame_def paint_def
  zeros_def black_def white_def toy_threshold toy_squeeze upt_two

lemmas intake_defs = sorted_frames_def frame_rate_def find_video_stream_def
  strip_data_url_def py_nth_def toy_extract_def toy_int_def

lemma toy_env_sel:
  "b64decode toy_env = (\<lambda>s. Inr (map (\<lambda>c. of_nat (of_char c)) s))"
  "b64encode toy_env = map (\<lambda>b. char_of (unat b))"
  "ffprobe toy_env = (\<lambda>v. Inr [\<lparr>codec_type = ''video'', r_frame_rate = ''30/1''\<rparr>])"
  "py_int toy_env = toy_int"
  "ffmpeg_extract toy_env = toy_extract"
  "image_size toy_env = (\<lambda>jpg. Inr (2, 2))"
  "from_pretrained toy_env = Inr ()"
  "model_cached toy_env = False"
  "init_state toy_env = Inr"
  "add_new_points_or_box toy_env = (\<lambda>st frame_idx obj_id point label. Inr st)"
  "propagate_in_video toy_env = toy_propagate"
  "png_save toy_env = (\<lambda>img. map fst (concat img))"
  "ffmpeg_encode toy_env =
     (\<lambda>fps pngs. Inr \<lparr>returncode = 0, stderr = [], output_file = Inr (concat pngs)\<rparr>)"
  "completion_delay toy_env = (\<lambda>i. 0)"
  "elapsed toy_env = 0"
  by (simp_all add: toy_env_def)

lemma replicate_two: "replicate 2 x = [x, x]"
  by (simp add: numeral_2_eq_2)

lemma toy_chunk_two:
  "segment_chunk toy_env [[97], [0]] 2 2 =
     ([Mkdtemp, Mkdir FramesDir, WriteFile (FrameJpg 0), WriteFile (FrameJpg 1),
       InitState [[97], [0]], AddPoint 0 1 (1, 1) 1, Propagate],
      Inr [[255, 0, 0, 0], [0, 0, 0, 0]])"
  by (simp add: worker_defs act_defs toy_env_sel toy_propagate_def replicate_two
      del: and_then_simps cong: and_then_weak_cong)

lemma toy_chunk_one:
  "segment_chunk toy_env [[b]] 2 2 =
     ([Mkdtemp, Mkdir FramesDir, WriteFile (FrameJpg 0),
       InitState [[b]], AddPoint 0 1 (1, 1) 1, Propagate],
      Inr [if b = 0 then [0, 0, 0, 0] else [255, 0, 0, 0]])"
  by (simp add: worker_defs act_defs toy_env_sel toy_propagate_def replicate_two
      del: and_then_simps cong: and_then_weak_cong)

lemma toy_track_two:
  "track_video toy_env [[97], [0]] 2 2 =
     ([InitState [[97], [0]], AddPoint 0 1 (1, 1) 1, Propagate],
      Inr [0 \<mapsto> [(1, toy_mask)]])"
  by (simp add: track_video_def toy_threshold act_defs toy_env_sel toy_propagate_def
      del: and_then_simps cong: and_then_weak_cong)

lemma toy_dispatch_two:
  "dispatch toy_env [[[97]], [[98]]] 2 2 =
     ([PoolMap 2,
       Mkdtemp, Mkdir FramesDir, WriteFile (FrameJpg 0),
       InitState [[97]], AddPoint 0 1 (1, 1) 1, Propagate,
       Mkdtemp, Mkdir FramesDir, WriteFile (FrameJpg 0),
       InitState [[98]], AddPoint 0 1 (1, 1) 1, Propagate],
      Inr [[255, 0, 0, 0], [255, 0, 0, 0]])"
  by (simp add: dispatch_def pool_map_def toy_chunk_one toy_env_sel act_defs
      del: and_then_simps cong: and_then_weak_cong)

lemma toy_dispatch_single:
  "dispatch toy_env [[[97]]] 2 2 =
     ([LocalCall, Mkdtemp, Mkdir FramesDir, WriteFile (FrameJpg 0),
       InitState [[97]], AddPoint 0 1 (1, 1) 1, Propagate],
      Inr [[255, 0, 0, 0]])"
  by (simp add: dispatch_def toy_chunk_one toy_env_sel act_defs
      del: and_then_simps cong: and_then_weak_cong)

lemma split_two: "split_chunks [a, b] = Inr [[a], [b]]"
proof -
  have l: "length [a, b] = 2" by simp
  show ?thesis
    unfolding split_chunks_def Let_def l
    by (simp add: py_ceil_div_def MAX_PARALLEL_CHUNKS_def chunk_loop.simps)
qed

lemma split_single: "split_chunks [a] = Inr [[a]]"
  by (simp add: split_chunks_def py_ceil_div_def MAX_PARALLEL_CHUNKS_def chunk_loop.simps)

lemma encode_fails_sel:
  "b64decode encode_fails_env = b64decode toy_env"
  "b64encode encode_fails_env = b64encode toy_env"
  "ffprobe encode_fails_env = ffprobe toy_env"
  "py_int encode_fails_env = py_int toy_env"
  "ffmpeg_extract encode_fails_env = ffmpeg_extract toy_env"
  "image_size encode_fails_env = image_size toy_env"
  "from_pretrained encode_fails_env = from_pretrained toy_env"
  "model_cached encode_fails_env = model_cached toy_env"
  "init_state encode_fails_env = init_state toy_env"
  "add_new_points_or_box encode_fails_env = add_new_points_or_box toy_env"
  "propagate_in_video encode_fails_env = propagate_in_video toy_env"
  "png_save encode_fails_env = png_save toy_env"
  "ffmpeg_encode encode_fails_env =
     (\<lambda>fps pngs. Inr \<lparr>returncode = 1, stderr = ''Invalid frame rate'', output_file = Inl OSError\<rparr>)"
  "completion_delay encode_fails_env = completion_delay toy_env"
  "elapsed encode_fails_env = elapsed toy_env"
  by (simp_all add: encode_fails_env_def)

lemma worker_same_env:
  assumes "init_state env' = init_state env"
    and "add_new_points_or_box env' = add_new_points_or_box env"
    and "propagate_in_video env' = propagate_in_video env"
    and "png_save env' = png_save env"
  shows "track_video env' frames w h = track_video env frames w h"
    and "segment_chunk env' frames w h = segment_chunk env frames w h"
  using assms by (simp_all add: segment_chunk_def track_video_def)

lemma sorted_frames_same_env:
  "py_int env' = py_int env \<Longrightarrow> sorted_frames env' listing = sorted_frames env listing"
  by (simp add: sorted_frames_def)

lemma frame_rate_same_env:
  "py_int env' = py_int env \<Longrightarrow> frame_rate env' vs = frame_rate env vs"
  by (simp add: frame_rate_def)

lemma toy_frame_rate:
  "frame_rate toy_env \<lparr>codec_type = ''video'', r_frame_rate = ''30/1''\<rparr> = ([], Inr 30)"
  by (simp add: frame_rate_def py_nth_def toy_int_def toy_env_sel act_defs
      del: and_then_simps cong: and_then_weak_cong)

lemma toy_sorted_one:
  "sorted_frames toy_env [\<lparr>stem = ''00000'', suffix = ''.jpg'', content = [a]\<rparr>]
     = ([], Inr [\<lparr>stem = ''00000'', suffix = ''.jpg'', content = [a]\<rparr>])"
  by (simp add: sorted_frames_def toy_int_def toy_env_sel act_defs
      del: and_then_simps cong: and_then_weak_cong)

lemma toy_sorted_two:
  "sorted_frames toy_env [\<lparr>stem = ''00000'', suffix = ''.jpg'', content = [a]\<rparr>,
                          \<lparr>stem = ''00001'', suffix = ''.jpg'', content = [b]\<rparr>]
     = ([], Inr [\<lparr>stem = ''00000'', suffix = ''.jpg'', content = [a]\<rparr>,
                 \<lparr>stem = ''00001'', suffix = ''.jpg'', content = [b]\<rparr>])"
  by (simp add: sorted_frames_def toy_int_def toy_env_sel act_defs
      del: and_then_simps cong: and_then_weak_cong)

lemma fails_frames_one:
  "segment_frames encode_fails_env [[97]] 2 2 30 =
     ([LocalCall, Mkdtemp, Mkdir FramesDir, WriteFile (FrameJpg 0),
       InitState [[97]], AddPoint 0 1 (1, 1) 1, Propagate,
       Mkdir MasksDir, WriteFile (MaskPng 0), Encode],
      Inl (RuntimeError ''ffmpeg failed: Invalid frame rate''))"
  by (simp add: segment_frames_def split_single dispatch_def
      worker_same_env(2) [of encode_fails_env toy_env] toy_chunk_one
      encode_fails_sel toy_env_sel act_defs last500_def
      del: and_then_simps cong: and_then_weak_cong)

lemma fails_segment_one:
  "segment encode_fails_env [''video_base64'' \<mapsto> ''a''] =
     ([B64Decode ''a'', Mkdtemp, WriteFile InputMp4, Probe, Mkdir FramesDir, ExtractFrames,
       OpenImage, ReadFile (FrameJpg 0),
       LocalCall, Mkdtemp, Mkdir FramesDir, WriteFile (FrameJpg 0),
       InitState [[97]], AddPoint 0 1 (1, 1) 1, Propagate,
       Mkdir MasksDir, WriteFile (MaskPng 0), Encode],
      Inl (RuntimeError ''ffmpeg failed: Invalid frame rate''))"
  by (simp add: segment_def segment_bytes_def strip_data_url_def find_video_stream_def toy_extract_def
      frame_rate_same_env [of encode_fails_env toy_env] toy_frame_rate
      sorted_frames_same_env [of encode_fails_env toy_env] toy_sorted_one
      fails_frames_one encode_fails_sel toy_env_sel act_defs
      del: and_then_simps cong: and_then_weak_cong)


lemma toy_render_two:
  "render_masks toy_env
     [\<lparr>stem = ''00000'', suffix = ''.jpg'', content = [97]\<rparr>,
      \<lparr>stem = ''00001'', suffix = ''.jpg'', content = [98]\<rparr>]
     [0 \<mapsto> [(Suc 0, toy_mask)],
      Suc 0 \<mapsto> [(Suc 0, toy_mask)]]
   = ([OpenImage, WriteFile (MaskPng 0), OpenImage, WriteFile (MaskPng 1)],
      Inr [[255, 0, 0, 0], [255, 0, 0, 0]])"
  by (simp add: render_masks_def render_frame_def paint_def zeros_def toy_squeeze upt_two
      black_def white_def toy_env_sel act_defs replicate_two
      del: and_then_simps cong: and_then_weak_cong)

lemma toy_render_one:
  "render_masks toy_env
     [\<lparr>stem = ''00000'', suffix = ''.jpg'', content = [97]\<rparr>]
     [0 \<mapsto> [(Suc 0, toy_mask)]]
   = ([OpenImage, WriteFile (MaskPng 0)], Inr [[255, 0, 0, 0]])"
  by (simp add: render_masks_def render_frame_def paint_def zeros_def toy_squeeze upt_two
      black_def white_def toy_env_sel act_defs replicate_two
      del: and_then_simps cong: and_then_weak_cong)

lemma toy_track_ab:
  "track_video toy_env [[97], [98]] 2 2 =
     ([InitState [[97], [98]], AddPoint 0 1 (1, 1) 1, Propagate],
      Inr [0 \<mapsto> [(1, toy_mask)],
           1 \<mapsto> [(1, toy_mask)]])"
  by (simp add: track_video_def toy_threshold act_defs toy_env_sel toy_propagate_def
      del: and_then_simps cong: and_then_weak_cong)

lemma toy_track_a:
  "track_video toy_env [[97]] 2 2 =
     ([InitState [[97]], AddPoint 0 1 (1, 1) 1, Propagate],
      Inr [0 \<mapsto> [(1, toy_mask)]])"
  by (simp add: track_video_def toy_threshold act_defs toy_env_sel toy_propagate_def
      del: and_then_simps cong: and_then_weak_cong)

lemma toy_segment_video_two:
  "segment_video toy_env [''video_base64'' \<mapsto> ''ab''] =
     ([B64Decode ''ab'', Mkdtemp, WriteFile InputMp4, Mkdir FramesDir, ExtractFrames,
       LoadModel, OpenImage, InitState [[97], [98]], AddPoint 0 1 (1, 1) 1, Propagate,
       Mkdir MasksDir, OpenImage, WriteFile (MaskPng 0), OpenImage, WriteFile (MaskPng 1),
       Probe, Encode, ReadFile MaskMp4],
      Inr [(''mask_video_base64'', PyStr (map char_of [255 :: nat, 0, 0, 0, 255, 0, 0, 0])),
           (''num_frames'', PyInt 2), (''fps'', PyFloat 30)])"
  by (simp add: segment_video_def segment_video_bytes_def segment_video_frames_def strip_data_url_def
      find_video_stream_def in_coroutine_def toy_extract_def
      toy_frame_rate toy_sorted_two toy_track_ab toy_render_two toy_env_sel act_defs
      del: and_then_simps cong: and_then_weak_cong)

lemma toy_frames_two:
  "segment_frames toy_env [[97], [98]] 2 2 30 =
     ([PoolMap 2,
       Mkdtemp, Mkdir FramesDir, WriteFile (FrameJpg 0),
       InitState [[97]], AddPoint 0 1 (1, 1) 1, Propagate,
       Mkdtemp, Mkdir FramesDir, WriteFile (FrameJpg 0),
       InitState [[98]], AddPoint 0 1 (1, 1) 1, Propagate,
       Mkdir MasksDir, WriteFile (MaskPng 0), WriteFile (MaskPng 1), Encode, ReadFile MaskMp4],
      Inr [(''mask_video_base64'', PyStr (map char_of [255 :: nat, 0, 0, 0, 255, 0, 0, 0])),
           (''num_frames'', PyInt 2), (''fps'', PyFloat 30), (''original_fps'', PyFloat 30),
           (''chunks'', PyInt 2), (''processing_time'', PyFloat 0)])"
  by (simp add: segment_frames_def split_two toy_dispatch_two toy_env_sel act_defs
      del: and_then_simps cong: and_then_weak_cong)

lemma toy_segment_two:
  "segment toy_env [''video_base64'' \<mapsto> ''ab''] =
     ([B64Decode ''ab'', Mkdtemp, WriteFile InputMp4, Probe, Mkdir FramesDir, ExtractFrames,
       OpenImage, ReadFile (FrameJpg 0), ReadFile (FrameJpg 1),
       PoolMap 2,
       Mkdtemp, Mkdir FramesDir, WriteFile (FrameJpg 0),
       InitState [[97]], AddPoint 0 1 (1, 1) 1, Propagate,
       Mkdtemp, Mkdir FramesDir, WriteFile (FrameJpg 0),
       InitState [[98]], AddPoint 0 1 (1, 1) 1, Propagate,
       Mkdir MasksDir, WriteFile (MaskPng 0), WriteFile (MaskPng 1), Encode, ReadFile MaskMp4],
      Inr [(''mask_video_base64'', PyStr (map char_of [255 :: nat, 0, 0, 0, 255, 0, 0, 0])),
           (''num_frames'', PyInt 2), (''fps'', PyFloat 30), (''original_fps'', PyFloat 30),
           (''chunks'', PyInt 2), (''processing_time'', PyFloat 0)])"
  by (simp add: segment_def segment_bytes_def strip_data_url_def find_video_stream_def toy_extract_def
      toy_frame_rate toy_sorted_two toy_frames_two toy_env_sel act_defs
      del: and_then_simps cong: and_then_weak_cong)

lemma fails_segment_video_one:
  "segment_video encode_fails_env [''video_base64'' \<mapsto> ''a''] =
     ([B64Decode ''a'', Mkdtemp, WriteFile InputMp4, Mkdir FramesDir, ExtractFrames,
       LoadModel, OpenImage, InitState [[97]], AddPoint 0 1 (1, 1) 1, Propagate,
       Mkdir MasksDir, OpenImage, WriteFile (MaskPng 0), Probe, Encode],
      Inr [(''error'', PyStr ''ffmpeg encode failed: Invalid frame rate'')])"
proof -
  have r: "render_masks encode_fails_env = render_masks toy_env"
    by (simp add: render_masks_def encode_fails_sel fun_eq_iff)
  show ?thesis
    by (simp add: segment_video_def segment_video_bytes_def segment_video_frames_def strip_data_url_def
      find_video_stream_def in_coroutine_def toy_extract_def last500_def
      frame_rate_same_env [of encode_fails_env toy_env] toy_frame_rate
      sorted_frames_same_env [of encode_fails_env toy_env] toy_sorted_one
      worker_same_env(1) [of encode_fails_env toy_env] toy_track_a
      r toy_render_one encode_fails_sel toy_env_sel act_defs
      del: and_then_simps cong: and_then_weak_cong)
qed


lemma toy_video_frames_two:
  "segment_video_frames toy_env [97, 98]
     [\<lparr>stem = ''00000'', suffix = ''.jpg'', content = [97]\<rparr>,
      \<lparr>stem = ''00001'', suffix = ''.jpg'', content = [98]\<rparr>] =
     ([LoadModel, OpenImage, InitState [[97], [98]], AddPoint 0 1 (1, 1) 1, Propagate,
       Mkdir MasksDir, OpenImage, WriteFile (MaskPng 0), OpenImage, WriteFile (MaskPng 1),
       Probe, Encode, ReadFile MaskMp4],
      Inr [(''mask_video_base64'', PyStr (map char_of [255 :: nat, 0, 0, 0, 255, 0, 0, 0])),
           (''num_frames'', PyInt 2), (''fps'', PyFloat 30)])"
  by (simp add: segment_video_frames_def find_video_stream_def in_coroutine_def
      toy_frame_rate toy_track_ab toy_render_two toy_env_sel act_defs
      del: and_then_simps cong: and_then_weak_cong)



text \<open>
  A mask of one row: after \<^verbatim>\<open>squeeze()\<close> it indexes the rows of the image. On an image of two
  rows it paints the first row; on an image of one row its length does not match.
\<close>

lemma render_frame_row_mask:
  "render_frame [0 \<mapsto> [(1, Tensor 1 2 (\<lambda>r c. c = 0))]] 2 2 0
     = Inr [[white, white], [black, black]]"
  by (simp add: render_frame_def squeeze_def paint_def zeros_def upt_two replicate_two)

lemma render_frame_row_mask_mismatch:
  "render_frame [0 \<mapsto> [(1, Tensor 1 2 (\<lambda>r c. c = 0))]] 1 2 0 = Inl IndexError"
  by (simp add: render_frame_def squeeze_def paint_def zeros_def)

text \<open>
  C5. For a non-empty frame sequence the partitioner returns chunks whose concatenation in
  chunk-index order is the frame sequence itself; chunk \<open>c\<close> is the contiguous slice that
  starts at position \<open>c * frames_per_chunk\<close> and has at most \<open>frames_per_chunk\<close> frames
  in source order, so no two chunks overlap, and no chunk is empty.
\<close>

theorem chunks_partition_frames:
  assumes "frames \<noteq> []"
  shows "\<exists>chunks. split_chunks frames = Inr chunks \<and> concat chunks = frames \<and>
           (let N = length frames; K = min MAX_PARALLEL_CHUNKS N; size = (N + K - 1) div K in
              \<forall>c<length chunks.
                 chunks ! c = take size (drop (c * size) frames) \<and> chunks ! c \<noteq> [])"
proof -
  from assms obtain chunks where sc: "split_chunks frames = Inr chunks"
    by (simp add: split_chunks_eq)
  have pos: "0 < chunk_size (length frames)" using assms by (simp add: chunk_size_pos)
  have "chunks ! c = take (chunk_size (length frames)) (drop (c * chunk_size (length frames)) frames)
        \<and> chunks ! c \<noteq> []" if "c < length chunks" for c
    using split_chunks_nth [OF assms sc that] split_chunks_start [OF assms sc that] pos by simp
  with sc split_chunks_concat [OF assms sc] show ?thesis
    unfolding Let_def chunk_size_def by blast
qed

theorem chunks_partition_frames_witness:
  "[1, 2, 3 :: nat] \<noteq> [] \<and> split_chunks [1, 2, 3 :: nat] = Inr [[1], [2], [3]]
   \<and> concat [[1], [2], [3]] = [1, 2, 3 :: nat]"
proof -
  have ne: "[1, 2, 3 :: nat] \<noteq> []" by simp
  from chunks_partition_frames [OF ne] obtain chunks where
    sc: "split_chunks [1, 2, 3 :: nat] = Inr chunks" and cc: "concat chunks = [1, 2, 3 :: nat]"
    by blast
  have "split_chunks [1, 2, 3 :: nat] = Inr [[1], [2], [3]]"
    by (simp add: split_chunks_def py_ceil_div_def MAX_PARALLEL_CHUNKS_def chunk_loop.simps)
  with sc cc show ?thesis by simp
qed

text \<open>
  C9. A request whose \<^verbatim>\<open>video_base64\<close> field is missing or empty is answered at once by
  both endpoints with the error response, and no effect at all has been performed: no
  base64 decoding, no temporary directory or file, no extraction, no encoding.
\<close>

theorem empty_payload_no_processing:
  assumes "input ''video_base64'' = None \<or> input ''video_base64'' = Some []"
  shows "segment env input = ([], Inr [(''error'', PyStr ''No video_base64 provided'')])
       \<and> segment_video env input = ([], Inr [(''error'', PyStr ''No video_base64 provided'')])"
  using assms by (auto simp: segment_def segment_video_def ret_def)

theorem empty_payload_no_processing_witness:
  "[''video_base64'' \<mapsto> ''''] ''video_base64'' = Some []
   \<and> segment toy_env [''video_base64'' \<mapsto> ''''] = ([], Inr [(''error'', PyStr ''No video_base64 provided'')])
   \<and> segment_video toy_env [''video_base64'' \<mapsto> ''''] = ([], Inr [(''error'', PyStr ''No video_base64 provided'')])"
  using empty_payload_no_processing [of "[''video_base64'' \<mapsto> '''']" toy_env] by simp

text \<open>
  C10. When the non-empty \<^verbatim>\<open>video_base64\<close> string contains a comma, either endpoint is
  the base64 decoding of what follows the first comma, whatever stands before it, followed
  by the rest of its handler on the bytes that this decoding returned; a string without a
  comma is decoded as it is.
\<close>

theorem comma_prefix_discarded:
  assumes "input ''video_base64'' = Some s" and "s \<noteq> []"
  shows "(CHR '','' \<notin> set p \<and> s = p @ CHR '','' # rest \<longrightarrow>
            segment env input
              = and_then (effect (B64Decode rest) (b64decode env rest)) (segment_bytes env) \<and>
            segment_video env input
              = and_then (effect (B64Decode rest) (b64decode env rest)) (segment_video_bytes env))
       \<and> (CHR '','' \<notin> set s \<longrightarrow>
            segment env input
              = and_then (effect (B64Decode s) (b64decode env s)) (segment_bytes env) \<and>
            segment_video env input
              = and_then (effect (B64Decode s) (b64decode env s)) (segment_video_bytes env))"
proof -
  have m: "segment env input
             = and_then (effect (B64Decode r) (b64decode env r)) (segment_bytes env)"
    and v: "segment_video env input
             = and_then (effect (B64Decode r) (b64decode env r)) (segment_video_bytes env)"
    if "strip_data_url s = Inr r" for r
    using assms that segment_payload [of input s r env]
      segment_video_payload [of input s r env] by simp_all
  show ?thesis
    using m [of rest] v [of rest] m [of s] v [of s]
      strip_data_url_comma [of p rest] strip_data_url_plain [of s]
    by blast
qed

theorem comma_prefix_discarded_witness:
  "[''video_base64'' \<mapsto> ''no url,ab''] ''video_base64'' = Some ''no url,ab''
   \<and> CHR '','' \<notin> set ''no url''
   \<and> CHR '','' \<notin> set ''ab''
   \<and> segment toy_env [''video_base64'' \<mapsto> ''no url,ab'']
       = segment toy_env [''video_base64'' \<mapsto> ''ab'']
   \<and> segment_video toy_env [''video_base64'' \<mapsto> ''no url,ab'']
       = segment_video toy_env [''video_base64'' \<mapsto> ''ab'']
   \<and> fst (segment toy_env [''video_base64'' \<mapsto> ''no url,ab'']) =
       [B64Decode ''ab'', Mkdtemp, WriteFile InputMp4, Probe, Mkdir FramesDir, ExtractFrames,
        OpenImage, ReadFile (FrameJpg 0), ReadFile (FrameJpg 1),
        PoolMap 2,
        Mkdtemp, Mkdir FramesDir, WriteFile (FrameJpg 0),
        InitState [[97]], AddPoint 0 1 (1, 1) 1, Propagate,
        Mkdtemp, Mkdir FramesDir, WriteFile (FrameJpg 0),
        InitState [[98]], AddPoint 0 1 (1, 1) 1, Propagate,
        Mkdir MasksDir, WriteFile (MaskPng 0), WriteFile (MaskPng 1), Encode, ReadFile MaskMp4]
   \<and> fst (segment_video toy_env [''video_base64'' \<mapsto> ''no url,ab'']) =
       [B64Decode ''ab'', Mkdtemp, WriteFile InputMp4, Mkdir FramesDir, ExtractFrames,
        LoadModel, OpenImage, InitState [[97], [98]], AddPoint 0 1 (1, 1) 1, Propagate,
        Mkdir MasksDir, OpenImage, WriteFile (MaskPng 0), OpenImage, WriteFile (MaskPng 1),
        Probe, Encode, ReadFile MaskMp4]"
proof -
  have h1: "[''video_base64'' \<mapsto> ''no url,ab''] ''video_base64'' = Some ''no url,ab''"
    by simp
  have h2: "''no url,ab'' \<noteq> []" by simp
  have h3: "CHR '','' \<notin> set ''no url''" by simp
  have h4: "''no url,ab'' = ''no url'' @ CHR '','' # ''ab''" by simp
  have g1: "[''video_base64'' \<mapsto> ''ab''] ''video_base64'' = Some ''ab''" by simp
  have g2: "''ab'' \<noteq> []" by simp
  have g3: "CHR '','' \<notin> set ''ab''" by simp
  note a = comma_prefix_discarded [where input = "[''video_base64'' \<mapsto> ''no url,ab'']"
      and s = "''no url,ab''" and p = "''no url''" and rest = "''ab''" and env = toy_env,
      OF h1 h2]
  note b = comma_prefix_discarded [where input = "[''video_base64'' \<mapsto> ''ab'']"
      and s = "''ab''" and p = "''no url''" and rest = "''ab''" and env = toy_env,
      OF g1 g2]
  from a h3 h4 have a1: "segment toy_env [''video_base64'' \<mapsto> ''no url,ab'']
      = and_then (effect (B64Decode ''ab'') (b64decode toy_env ''ab'')) (segment_bytes toy_env)"
    and a2: "segment_video toy_env [''video_base64'' \<mapsto> ''no url,ab'']
      = and_then (effect (B64Decode ''ab'') (b64decode toy_env ''ab''))
          (segment_video_bytes toy_env)"
    by blast+
  from b g3 have b1: "segment toy_env [''video_base64'' \<mapsto> ''ab'']
      = and_then (effect (B64Decode ''ab'') (b64decode toy_env ''ab'')) (segment_bytes toy_env)"
    and b2: "segment_video toy_env [''video_base64'' \<mapsto> ''ab'']
      = and_then (effect (B64Decode ''ab'') (b64decode toy_env ''ab''))
          (segment_video_bytes toy_env)"
    by blast+
  from a1 b1 have e1: "segment toy_env [''video_base64'' \<mapsto> ''no url,ab'']
       = segment toy_env [''video_base64'' \<mapsto> ''ab'']" by (simp only:)
  from a2 b2 have e2: "segment_video toy_env [''video_base64'' \<mapsto> ''no url,ab'']
       = segment_video toy_env [''video_base64'' \<mapsto> ''ab'']" by (simp only:)
  show ?thesis
    unfolding e1 e2 using h1 h3 g3 by (simp add: toy_segment_two toy_segment_video_two)
qed

text \<open>
  C1, as the code has it. With \<open>K = min 8 num_frames\<close> and
  \<open>frames_per_chunk = ceil (num_frames / K)\<close>, a video of at least one frame is cut into
  \<open>ceil (num_frames / frames_per_chunk)\<close> chunks, which is at least one and at most \<open>K\<close>;
  every chunk but the last has \<open>frames_per_chunk\<close> frames, the last has between one and
  \<open>frames_per_chunk\<close>; and the \<^verbatim>\<open>chunks\<close> field of a success response is the number of
  chunks made.
\<close>

theorem chunk_count_and_sizes:
  assumes "frames \<noteq> []"
  shows "\<exists>chunks. split_chunks frames = Inr chunks \<and>
           (let N = length frames; K = min MAX_PARALLEL_CHUNKS N; size = (N + K - 1) div K in
              length chunks = (N + size - 1) div size \<and>
              1 \<le> length chunks \<and> length chunks \<le> K \<and>
              (\<forall>c. Suc c < length chunks \<longrightarrow> length (chunks ! c) = size) \<and>
              1 \<le> length (last chunks) \<and> length (last chunks) \<le> size) \<and>
           (\<forall>t resp. segment_frames env frames width height fps = (t, Inr resp) \<longrightarrow>
              map_of resp ''chunks'' = Some (PyInt (int (length chunks))))"
proof -
  from assms obtain chunks where sc: "split_chunks frames = Inr chunks"
    by (simp add: split_chunks_eq)
  let ?size = "chunk_size (length frames)"
  have pos: "0 < ?size" using assms by (simp add: chunk_size_pos)
  have len: "length chunks = (length frames + ?size - 1) div ?size"
    by (rule split_chunks_length [OF assms sc])
  have lo: "1 \<le> length chunks" by (rule split_chunks_count_pos [OF assms sc])
  have hi: "length chunks \<le> min MAX_PARALLEL_CHUNKS (length frames)"
    by (rule split_chunks_count_le [OF assms sc])
  have full: "length (chunks ! c) = ?size" if "Suc c < length chunks" for c
  proof -
    from that have "c < length chunks" by simp
    from split_chunks_nth [OF assms sc this]
    have "length (chunks ! c) = min (length frames - c * ?size) ?size" by simp
    moreover from split_chunks_start [OF assms sc that]
    have "c * ?size + ?size < length frames" by simp
    ultimately show ?thesis by simp
  qed
  have ne: "chunks \<noteq> []" using lo by auto
  have lst: "last chunks = chunks ! (length chunks - 1)" using ne by (rule last_conv_nth)
  have l1: "length chunks - 1 < length chunks" using lo by simp
  from split_chunks_nth [OF assms sc l1] lst
  have ll: "length (last chunks) = min (length frames - (length chunks - 1) * ?size) ?size"
    by simp
  from split_chunks_start [OF assms sc l1] pos ll
  have last_lo: "1 \<le> length (last chunks)" and last_hi: "length (last chunks) \<le> ?size"
    by simp_all
  have field: "map_of resp ''chunks'' = Some (PyInt (int (length chunks)))"
    if "segment_frames env frames width height fps = (t, Inr resp)" for t resp
  proof -
    from that sc show ?thesis
      unfolding segment_frames_def Let_def
      by (auto elim!: and_then_InrE simp: ret_def raise_def lift_def effect_def effects_def
            simp del: and_then_simps split: if_splits)
  qed
  from sc len lo hi full last_lo last_hi field show ?thesis
    unfolding Let_def chunk_size_def by blast
qed

theorem chunk_count_and_sizes_witness:
  "map (\<lambda>b. [b]) [1, 2, 3, 4, 5, 6, 7, 8, 9 :: 8 word] \<noteq> []
   \<and> (\<exists>chunks. split_chunks (map (\<lambda>b. [b]) [1, 2, 3, 4, 5, 6, 7, 8, 9 :: 8 word]) = Inr chunks
         \<and> length chunks = 5 \<and> length (last chunks) = 1)
   \<and> [[97], [98 :: 8 word]] \<noteq> []
   \<and> split_chunks [[97], [98 :: 8 word]] = Inr [[[97]], [[98]]]
   \<and> (\<exists>t resp. segment_frames toy_env [[97], [98]] 2 2 30 = (t, Inr resp)
         \<and> map_of resp ''chunks'' = Some (PyInt 2))"
proof -
  have ne9: "map (\<lambda>b. [b]) [1, 2, 3, 4, 5, 6, 7, 8, 9 :: 8 word] \<noteq> []" by simp
  have sc9: "split_chunks (map (\<lambda>b. [b]) [1, 2, 3, 4, 5, 6, 7, 8, 9 :: 8 word])
             = Inr [[[1], [2]], [[3], [4]], [[5], [6]], [[7], [8]], [[9]]]"
    by (simp add: split_chunks_def py_ceil_div_def MAX_PARALLEL_CHUNKS_def chunk_loop.simps)
  have nine: "\<exists>chunks. split_chunks (map (\<lambda>b. [b]) [1, 2, 3, 4, 5, 6, 7, 8, 9 :: 8 word]) = Inr chunks
         \<and> length chunks = 5 \<and> length (last chunks) = 1"
    using chunk_count_and_sizes [OF ne9, of toy_env 2 2 30] sc9 by simp
  have ne2: "[[97], [98 :: 8 word]] \<noteq> []" by simp
  have sc2: "split_chunks [[97], [98 :: 8 word]] = Inr [[[97]], [[98]]]" by (rule split_two)
  from chunk_count_and_sizes [OF ne2, of toy_env 2 2 30] sc2
  have field: "\<forall>t resp. segment_frames toy_env [[97], [98]] 2 2 30 = (t, Inr resp) \<longrightarrow>
      map_of resp ''chunks'' = Some (PyInt (int (length [[[97]], [[98 :: 8 word]]])))"
    by simp
  obtain t resp where run: "segment_frames toy_env [[97], [98]] 2 2 30 = (t, Inr resp)"
    by (simp add: toy_frames_two)
  with field have "map_of resp ''chunks'' = Some (PyInt 2)" by simp
  with run have two: "\<exists>t resp. segment_frames toy_env [[97], [98]] 2 2 30 = (t, Inr resp)
         \<and> map_of resp ''chunks'' = Some (PyInt 2)" by blast
  from ne9 nine ne2 sc2 two show ?thesis by (simp only: simp_thms)
qed

theorem chunk_count_counterexample:
  "1 \<le> length ''abcdefghi''
   \<and> split_chunks ''abcdefghi'' = Inr [''ab'', ''cd'', ''ef'', ''gh'', ''i'']
   \<and> length [''ab'', ''cd'', ''ef'', ''gh'', ''i''] \<noteq> min MAX_PARALLEL_CHUNKS (length ''abcdefghi'')"
  by (simp add: split_chunks_def py_ceil_div_def MAX_PARALLEL_CHUNKS_def chunk_loop.simps)

text \<open>
  C7. Whenever the segmentation worker returns, it returns exactly one PNG per input frame:
  entry \<open>i\<close> is the rendering of what the tracker, run on this chunk, propagated for local
  frame \<open>i\<close>, and a frame index without a propagated mask is the all-black image of
  \<open>height\<close> rows and \<open>width\<close> columns of RGB pixels.
\<close>

theorem worker_one_mask_per_frame:
  assumes "segment_chunk env frame_jpegs width height = (t, Inr mask_pngs)"
  shows "length mask_pngs = length frame_jpegs \<and>
         (\<exists>t' video_segments.
            track_video env frame_jpegs width height = (t', Inr video_segments) \<and>
            (\<forall>i<length frame_jpegs.
               (\<exists>img. render_frame video_segments height width i = Inr img
                      \<and> mask_pngs ! i = png_save env img) \<and>
               (video_segments i = None \<longrightarrow>
                  mask_pngs ! i = png_save env (replicate height (replicate width (0, 0, 0))))))"
proof -
  from segment_chunk_Inr [OF assms] obtain t' vs where
    len: "length mask_pngs = length frame_jpegs" and
    tv: "track_video env frame_jpegs width height = (t', Inr vs)" and
    nth: "\<forall>i<length frame_jpegs. \<exists>img.
            render_frame vs height width i = Inr img \<and> mask_pngs ! i = png_save env img"
    by blast
  have "mask_pngs ! i = png_save env (replicate height (replicate width (0, 0, 0)))"
    if "i < length frame_jpegs" "vs i = None" for i
    using nth that by (auto simp: render_frame_def zeros_def black_def)
  with len tv nth show ?thesis by blast
qed

theorem worker_one_mask_per_frame_witness:
  "segment_chunk toy_env [[97], [0]] 2 2 =
     ([Mkdtemp, Mkdir FramesDir, WriteFile (FrameJpg 0), WriteFile (FrameJpg 1),
       InitState [[97], [0]], AddPoint 0 1 (1, 1) 1, Propagate],
      Inr [[255, 0, 0, 0], [0, 0, 0, 0]])
   \<and> length [[255, 0, 0, 0], [0, 0, 0, 0 :: 8 word]] = length [[97], [0 :: 8 word]]
   \<and> (\<exists>t' video_segments.
         track_video toy_env [[97], [0]] 2 2 = (t', Inr video_segments)
       \<and> video_segments 1 = None
       \<and> [[255, 0, 0, 0], [0, 0, 0, 0]] ! 1
           = png_save toy_env (replicate 2 (replicate 2 (0, 0, 0))))"
proof -
  from worker_one_mask_per_frame [OF toy_chunk_two] obtain t' vs where
    tv: "track_video toy_env [[97], [0]] 2 2 = (t', Inr vs)" and
    blk: "\<forall>i<length [[97], [0 :: 8 word]]. vs i = None \<longrightarrow>
            [[255, 0, 0, 0], [0, 0, 0, 0]] ! i
            = png_save toy_env (replicate 2 (replicate 2 (0, 0, 0)))"
    by blast
  from tv have vs: "vs = [0 \<mapsto> [(1, toy_mask)]]"
    by (simp add: toy_track_two)
  then have none: "vs 1 = None" by simp
  have "[[255, 0, 0, 0], [0, 0, 0, 0]] ! 1
      = png_save toy_env (replicate 2 (replicate 2 (0, 0, 0)))"
    using blk [rule_format, of 1] none by simp
  with tv none toy_chunk_two show ?thesis by simp
qed

text \<open>
  C4. When the dispatcher returns for the chunks of a video of \<open>N\<close> frames, the flattened
  mask sequence has exactly \<open>N\<close> entries; source frame \<open>i\<close> sits at local position
  \<open>i mod frames_per_chunk\<close> of chunk \<open>i div frames_per_chunk\<close>, and entry \<open>i\<close> is the
  rendering of what the tracker, run on that chunk, propagated for that local position.
  The result is the same for every assignment of completion times to the chunks.
\<close>

theorem dispatcher_preserves_frame_order:
  assumes "split_chunks frames = Inr chunks"
    and "snd (dispatch env chunks width height) = Inr all_mask_pngs"
  shows "length all_mask_pngs = length frames \<and>
         (let N = length frames; K = min MAX_PARALLEL_CHUNKS N; size = (N + K - 1) div K in
            \<forall>i<N. i div size < length chunks \<and>
                   i mod size < length (chunks ! (i div size)) \<and>
                   chunks ! (i div size) ! (i mod size) = frames ! i \<and>
                   (\<exists>t video_segments img.
                      track_video env (chunks ! (i div size)) width height
                        = (t, Inr video_segments) \<and>
                      render_frame video_segments height width (i mod size) = Inr img \<and>
                      all_mask_pngs ! i = png_save env img)) \<and>
         (\<forall>delay. snd (dispatch (env\<lparr>completion_delay := delay\<rparr>) chunks width height)
                    = Inr all_mask_pngs)"
proof -
  have ne: "frames \<noteq> []" using assms(1) by (rule split_chunks_nonempty)
  let ?s = "chunk_size (length frames)"
  have pos: "0 < ?s" using ne by (simp add: chunk_size_pos)
  have cc: "concat chunks = frames" by (rule split_chunks_concat [OF ne assms(1)])
  note sz = split_chunks_sizes [OF assms(1)]
  from snd_dispatch_Inr [OF assms(2)] obtain results where
    rl: "length results = length chunks" and
    rc: "\<forall>c<length chunks. snd (segment_chunk env (chunks ! c) width height) = Inr (results ! c)" and
    m: "all_mask_pngs = concat results"
    by blast
  have worker: "length (results ! c) = length (chunks ! c) \<and>
         (\<exists>t' vs. track_video env (chunks ! c) width height = (t', Inr vs) \<and>
            (\<forall>j<length (chunks ! c). \<exists>img.
               render_frame vs height width j = Inr img \<and> results ! c ! j = png_save env img))"
    if "c < length chunks" for c
  proof -
    from rc that have "segment_chunk env (chunks ! c) width height
        = (fst (segment_chunk env (chunks ! c) width height), Inr (results ! c))"
      by (metis prod.collapse)
    from segment_chunk_Inr [OF this] show ?thesis .
  qed
  have same: "\<forall>c<length results. length (results ! c) = length (chunks ! c)"
    using worker rl by simp
  have len: "length (concat results) = length frames"
    using length_concat_same_shape [OF rl same] cc by simp
  have rs1: "\<forall>c<length results. length (results ! c) \<le> ?s" using sz(1) same rl by simp
  have rs2: "\<forall>c. Suc c < length results \<longrightarrow> length (results ! c) = ?s"
    using sz(2) same rl by simp
  have entry: "i div ?s < length chunks \<and> i mod ?s < length (chunks ! (i div ?s)) \<and>
         chunks ! (i div ?s) ! (i mod ?s) = frames ! i \<and>
         (\<exists>t vs img. track_video env (chunks ! (i div ?s)) width height = (t, Inr vs) \<and>
            render_frame vs height width (i mod ?s) = Inr img \<and>
            all_mask_pngs ! i = png_save env img)"
    if "i < length frames" for i
  proof -
    from that cc have ic: "i < length (concat chunks)" by simp
    from concat_nth_chunks [OF pos sz(1) sz(2) ic] cc
    have c1: "i div ?s < length chunks" and c2: "i mod ?s < length (chunks ! (i div ?s))"
      and c3: "frames ! i = chunks ! (i div ?s) ! (i mod ?s)" by simp_all
    from that len have ir: "i < length (concat results)" by simp
    from concat_nth_chunks [OF pos rs1 rs2 ir] m
    have r3: "all_mask_pngs ! i = results ! (i div ?s) ! (i mod ?s)" by simp
    from worker [OF c1] c2 obtain t' vs img where
      "track_video env (chunks ! (i div ?s)) width height = (t', Inr vs)"
      "render_frame vs height width (i mod ?s) = Inr img"
      "results ! (i div ?s) ! (i mod ?s) = png_save env img"
      by blast
    with c1 c2 c3 r3 show ?thesis by auto
  qed
  have indep: "snd (dispatch (env\<lparr>completion_delay := delay\<rparr>) chunks width height)
                 = Inr all_mask_pngs" for delay
    using assms(2) by (simp only: snd_dispatch_delay)
  from len m entry indep show ?thesis
    unfolding Let_def chunk_size_def by blast
qed

theorem dispatcher_preserves_frame_order_witness:
  "split_chunks [[97], [98 :: 8 word]] = Inr [[[97]], [[98]]]
   \<and> snd (dispatch toy_env [[[97]], [[98]]] 2 2) = Inr [[255, 0, 0, 0], [255, 0, 0, 0]]
   \<and> length [[255, 0, 0, 0], [255, 0, 0, 0 :: 8 word]] = length [[97], [98 :: 8 word]]
   \<and> snd (dispatch (toy_env\<lparr>completion_delay := (\<lambda>i. 5 - i)\<rparr>) [[[97]], [[98]]] 2 2)
       = Inr [[255, 0, 0, 0], [255, 0, 0, 0]]"
proof -
  have d: "snd (dispatch toy_env [[[97]], [[98]]] 2 2) = Inr [[255, 0, 0, 0], [255, 0, 0, 0]]"
    by (simp add: toy_dispatch_two)
  from dispatcher_preserves_frame_order [OF split_two d]
  have "length [[255, 0, 0, 0], [255, 0, 0, 0 :: 8 word]] = length [[97], [98 :: 8 word]]"
    and "snd (dispatch (toy_env\<lparr>completion_delay := (\<lambda>i. 5 - i)\<rparr>) [[[97]], [[98]]] 2 2)
       = Inr [[255, 0, 0, 0], [255, 0, 0, 0]]"
    by blast+
  with d split_two [of "[97]" "[98 :: 8 word]"] show ?thesis by simp
qed

text \<open>
  C6. When the partition has exactly one chunk the dispatcher calls the worker in process,
  on that chunk, and the pooled \<^verbatim>\<open>.map\<close> path is not taken; otherwise the partition has
  two chunks or more, the dispatcher starts with the pooled call over all of them and
  makes no in-process call.
\<close>

theorem single_chunk_runs_in_process:
  assumes "split_chunks frames = Inr chunks"
  shows "(length chunks = 1 \<longrightarrow>
            dispatch env chunks width height
              = and_then (effects [LocalCall])
                  (\<lambda>_. segment_chunk env (chunks ! 0) width height) \<and>
            (\<forall>n. PoolMap n \<notin> set (fst (dispatch env chunks width height)))) \<and>
         (length chunks \<noteq> 1 \<longrightarrow>
            2 \<le> length chunks \<and>
            (\<exists>t. fst (dispatch env chunks width height) = PoolMap (length chunks) # t) \<and>
            LocalCall \<notin> set (fst (dispatch env chunks width height))) \<and>
         (\<forall>n. PoolMap n \<in> set (fst (dispatch env chunks width height)) \<longrightarrow> 2 \<le> length chunks)"
proof -
  have ne: "frames \<noteq> []" using assms by (rule split_chunks_nonempty)
  have lo: "1 \<le> length chunks" by (rule split_chunks_count_pos [OF ne assms])
  have we: "\<forall>e\<in>set (fst (segment_chunk env c width height)). worker_event e" for c
    using worker_events_segment_chunk [of env c width height] by (simp add: list_all_iff)
  have no_pool: "PoolMap n \<notin> set (fst (segment_chunk env c width height))" for n c
    using we [of c] by auto
  have no_local: "LocalCall \<notin> set (fst (segment_chunk env c width height))" for c
    using we [of c] by auto
  have single: "dispatch env chunks width height
              = and_then (effects [LocalCall])
                  (\<lambda>_. segment_chunk env (chunks ! 0) width height) \<and>
            (\<forall>n. PoolMap n \<notin> set (fst (dispatch env chunks width height)))"
    if "length chunks = 1"
    using that no_pool by (simp add: fst_dispatch_local) (simp add: dispatch_def)
  have pooled: "2 \<le> length chunks \<and>
            (\<exists>t. fst (dispatch env chunks width height) = PoolMap (length chunks) # t) \<and>
            LocalCall \<notin> set (fst (dispatch env chunks width height))"
    if "length chunks \<noteq> 1"
    using that lo no_local by (auto simp: fst_dispatch_pool)
  from single pooled show ?thesis by blast
qed

theorem single_chunk_runs_in_process_witness:
  "split_chunks [[97 :: 8 word]] = Inr [[[97]]] \<and> length [[[97 :: 8 word]]] = 1
   \<and> dispatch toy_env [[[97]]] 2 2
       = and_then (effects [LocalCall]) (\<lambda>_. segment_chunk toy_env ([[[97]]] ! 0) 2 2)
   \<and> PoolMap 1 \<notin> set (fst (dispatch toy_env [[[97]]] 2 2))
   \<and> split_chunks [[97], [98 :: 8 word]] = Inr [[[97]], [[98]]]
   \<and> (\<exists>t. fst (dispatch toy_env [[[97]], [[98]]] 2 2) = PoolMap 2 # t)
   \<and> LocalCall \<notin> set (fst (dispatch toy_env [[[97]], [[98]]] 2 2))"
proof -
  note one = single_chunk_runs_in_process [OF split_single, of "[97]" toy_env 2 2]
  note two = single_chunk_runs_in_process [OF split_two, of "[97]" "[98]" toy_env 2 2]
  have l1: "length [[[97 :: 8 word]]] = 1" by simp
  have l2: "length [[[97]], [[98 :: 8 word]]] \<noteq> 1" by simp
  have l3: "length [[[97]], [[98 :: 8 word]]] = 2" by simp
  from one l1 have a1: "dispatch toy_env [[[97]]] 2 2
       = and_then (effects [LocalCall]) (\<lambda>_. segment_chunk toy_env ([[[97]]] ! 0) 2 2)"
    and a2: "\<forall>n. PoolMap n \<notin> set (fst (dispatch toy_env [[[97]]] 2 2))"
    by blast+
  from two l2 have b1: "\<exists>t. fst (dispatch toy_env [[[97]], [[98]]] 2 2)
       = PoolMap (length [[[97]], [[98 :: 8 word]]]) # t"
    and b2: "LocalCall \<notin> set (fst (dispatch toy_env [[[97]], [[98]]] 2 2))"
    by blast+
  from b1 have b1': "\<exists>t. fst (dispatch toy_env [[[97]], [[98]]] 2 2) = PoolMap 2 # t"
    by (simp only: l3)
  from a2 have a2': "PoolMap 1 \<notin> set (fst (dispatch toy_env [[[97]]] 2 2))" by blast
  from split_single [of "[97 :: 8 word]"] l1 a1 a2' split_two [of "[97]" "[98 :: 8 word]"] b1' b2
  show ?thesis by (simp only: simp_thms)
qed

text \<open>
  C8. With an encoder that exits with status 1, the RunPod endpoint returns the error
  response carrying the end of the encoder's diagnostics and no \<^verbatim>\<open>mask_video_base64\<close>
  key, while the Modal endpoint, on the same request, leaves the handler with a
  RuntimeError and returns no response at all.
\<close>

theorem encode_failure_modal_raises:
  "segment encode_fails_env [''video_base64'' \<mapsto> ''a''] =
     ([B64Decode ''a'', Mkdtemp, WriteFile InputMp4, Probe, Mkdir FramesDir, ExtractFrames,
       OpenImage, ReadFile (FrameJpg 0),
       LocalCall, Mkdtemp, Mkdir FramesDir, WriteFile (FrameJpg 0),
       InitState [[97]], AddPoint 0 1 (1, 1) 1, Propagate,
       Mkdir MasksDir, WriteFile (MaskPng 0), Encode],
      Inl (RuntimeError ''ffmpeg failed: Invalid frame rate''))
   \<and> snd (segment_video encode_fails_env [''video_base64'' \<mapsto> ''a'']) =
       Inr [(''error'', PyStr ''ffmpeg encode failed: Invalid frame rate'')]
   \<and> map_of [(''error'', PyStr ''ffmpeg encode failed: Invalid frame rate'')]
         ''mask_video_base64'' = None"
  by (simp add: fails_segment_one fails_segment_video_one)





end
